theory Spec2Isabelle
  imports Main "HOL-Library.AList" "HOL-Library.Char_ord" "HOL-Library.List_Lexorder"
begin

section \<open>Static generation of package aggregator files (mkinit, static\_mkinit.py)\<close>

text \<open>
  The module \<^verbatim>\<open>mkinit/static_mkinit.py\<close> inspects the submodules of one package
  without executing them and returns, for every submodule, the sorted list of names the
  package's \<^verbatim>\<open>__init__.py\<close> should re-export.  This theory embeds the functions of
  that module as HOL functions.  Exceptions are values of the type \<open>error\<close>, and a function
  that can raise returns \<open>error + 'a\<close> with \<open>Inl\<close> for the raised exception.
  Strings are compared as Python compares them, character by character
  (\<open>HOL-Library.Char_ord\<close> and \<open>HOL-Library.List_Lexorder\<close>), so \<open>sort\<close> is
  Python's \<^verbatim>\<open>sorted\<close> on lists of strings.
\<close>

subsection \<open>Data model\<close>

type_synonym path = string
type_synonym source = string

text \<open>
  The exceptions of a run.  The first seven are exception classes of the host language,
  with the message: those a collaborator (the file system, xdoctest's static analysis, the
  top-level visitor) or the interpreter raises, and the two that \<^verbatim>\<open>static_mkinit.py\<close>
  raises itself with a fixed text, \<^verbatim>\<open>ValueError('Invalid module ...')\<close> and
  \<^verbatim>\<open>AssertionError('modname is None')\<close>.  The last three are the \<^verbatim>\<open>raise\<close> statements
  of \<^verbatim>\<open>static_mkinit.py\<close> whose message is formatted from a value, kept here with that
  value:
  \<^item> \<open>CannotImport pkgpath\<close> is \<^verbatim>\<open>Exception('cannot import {!r}'.format(pkgpath))\<close>,
  \<^item> \<open>FailedToLookup rel_modname\<close> is
    \<^verbatim>\<open>Exception('Failed to lookup {!r}'.format(rel_modname))\<close>,
  \<^item> \<open>ErrorReading sub_modpath ex\<close> is
    \<^verbatim>\<open>IOError('Error reading {}, caused by {}'.format(sub_modpath, repr(ex)))\<close>.
\<close>

datatype error =
    NameError string
  | ValueError string
  | TypeError string
  | KeyError string
  | OSError string
  | SyntaxError string
  | AssertionError string
  | CannotImport path
  | FailedToLookup string
  | ErrorReading path error

fun is_NameError :: "error \<Rightarrow> bool" where
  "is_NameError (NameError msg) = True"
| "is_NameError e = False"

fun is_ValueError :: "error \<Rightarrow> bool" where
  "is_ValueError (ValueError msg) = True"
| "is_ValueError e = False"

text \<open>
  The collaborators of \<^verbatim>\<open>static_mkinit.py\<close>: the interpreter, \<^verbatim>\<open>os.path\<close>, the
  built-in \<^verbatim>\<open>open\<close>, \<^verbatim>\<open>xdoctest.static_analysis\<close> (imported as \<^verbatim>\<open>static\<close>) and
  \<^verbatim>\<open>mkinit.top_level_ast.TopLevelVisitor\<close>.  Each one is a field, with the keyword
  arguments the module always passes fixed:
  \<^item> \<open>PY2\<close> is \<^verbatim>\<open>six.PY2\<close>;
  \<^item> \<open>path_exists\<close>, \<open>abspath\<close>, \<open>path_join\<close> are \<^verbatim>\<open>exists\<close>, \<^verbatim>\<open>abspath\<close>,
    \<^verbatim>\<open>join\<close> of \<^verbatim>\<open>os.path\<close>;
  \<^item> \<open>open_read p enc\<close> is \<^verbatim>\<open>open(p, 'r').read()\<close> when \<open>enc = None\<close> and
    \<^verbatim>\<open>open(p, 'r', encoding=e).read()\<close> when \<open>enc = Some e\<close>;
  \<^item> \<open>parse_static_value key source\<close> is \<^verbatim>\<open>static.parse_static_value(key, source)\<close>:
    it raises, or returns the value assigned to \<open>key\<close>, which is \<^verbatim>\<open>None\<close>
    (\<open>Inr None\<close>) or a list of names (\<open>Inr (Some names)\<close>); values of other types are
    outside the model;
  \<^item> \<open>modname_to_modpath name hide_init\<close> is
    \<^verbatim>\<open>static.modname_to_modpath(name, hide_init=hide_init)\<close>, \<^verbatim>\<open>None\<close> when the module is
    not found;
  \<^item> \<open>modpath_to_modname p relativeto\<close> is
    \<^verbatim>\<open>static.modpath_to_modname(p, check=False, relativeto=relativeto)\<close>;
  \<^item> \<open>split_modpath p\<close> is \<^verbatim>\<open>static.split_modpath(p, check=False)\<close>;
  \<^item> \<open>package_modpaths p\<close> is the list yielded by
    \<^verbatim>\<open>static.package_modpaths(p, with_pkg=True, recursive=False, check=False)\<close>;
  \<^item> \<open>TopLevelVisitor_parse source\<close> is \<^verbatim>\<open>TopLevelVisitor.parse(source).attrnames\<close>;
  \<^item> \<open>dir_builtins\<close> is \<^verbatim>\<open>dir(builtins)\<close>.
\<close>

record env =
  PY2 :: bool
  path_exists :: "path \<Rightarrow> bool"
  abspath :: "path \<Rightarrow> path"
  path_join :: "path \<Rightarrow> path \<Rightarrow> path"
  open_read :: "path \<Rightarrow> string option \<Rightarrow> error + source"
  parse_static_value :: "string \<Rightarrow> source \<Rightarrow> error + string list option"
  modname_to_modpath :: "string \<Rightarrow> bool \<Rightarrow> path option"
  modpath_to_modname :: "path \<Rightarrow> path option \<Rightarrow> string option"
  split_modpath :: "path \<Rightarrow> error + path \<times> path"
  package_modpaths :: "path \<Rightarrow> path list"
  TopLevelVisitor_parse :: "source \<Rightarrow> error + string list"
  dir_builtins :: "string list"

subsection \<open>String and dictionary helpers of the host language\<close>

text \<open>\<^verbatim>\<open>s.startswith(p)\<close>.\<close>

definition startswith :: "string \<Rightarrow> string \<Rightarrow> bool" where
  "startswith s p = (take (length p) s = p)"

text \<open>\<^verbatim>\<open>b.replace('\\', '/').split('/')[0]\<close>: the text before the first separator.\<close>

definition first_component :: "string \<Rightarrow> string" where
  "first_component b =
     takeWhile (\<lambda>c. c \<noteq> CHR ''/'') (map (\<lambda>c. if c = CHR 0x5C then CHR ''/'' else c) b)"

text \<open>
  A Python \<^verbatim>\<open>dict\<close> built from a sequence of pairs, as an association list: a key keeps
  the position of its first insertion and the value of its last one.
\<close>

definition dict :: "('k \<times> 'v) list \<Rightarrow> ('k \<times> 'v) list" where
  "dict pairs = foldl (\<lambda>d (k, v). AList.update k v d) [] pairs"

definition keys :: "('k \<times> 'v) list \<Rightarrow> 'k list" where
  "keys d = map fst d"

subsection \<open>Locating the package\<close>

text \<open>\<^verbatim>\<open>_rectify_to_modpath\<close>.\<close>

definition rectify_to_modpath :: "env \<Rightarrow> string \<Rightarrow> error + path" where
  "rectify_to_modpath env modpath_or_name =
     (if path_exists env modpath_or_name then Inr (abspath env modpath_or_name)
      else (case modname_to_modpath env modpath_or_name True of
              None \<Rightarrow> Inl (ValueError (''Invalid module '' @ modpath_or_name))
            | Some modpath \<Rightarrow> Inr modpath))"

subsection \<open>The declared submodule list\<close>

text \<open>
  \<^verbatim>\<open>parse_submodule_definition\<close>: the value of \<^verbatim>\<open>__submodules__\<close> in the package's
  \<^verbatim>\<open>__init__.py\<close>, or of \<^verbatim>\<open>__SUBMODULES__\<close> when the first lookup raises
  \<^verbatim>\<open>NameError\<close>; \<^verbatim>\<open>None\<close> when the file does not exist or both lookups raise
  \<^verbatim>\<open>NameError\<close>.  Any other exception propagates.
\<close>

definition parse_submodule_definition :: "env \<Rightarrow> path \<Rightarrow> error + string list option" where
  "parse_submodule_definition env modpath =
     (let init_fpath = path_join env modpath ''__init__.py'' in
      if path_exists env init_fpath then
        (case open_read env init_fpath None of
           Inl e \<Rightarrow> Inl e
         | Inr source \<Rightarrow>
             (case parse_static_value env ''__submodules__'' source of
                Inr imports \<Rightarrow> Inr imports
              | Inl e \<Rightarrow>
                  if is_NameError e then
                    (case parse_static_value env ''__SUBMODULES__'' source of
                       Inr imports \<Rightarrow> Inr imports
                     | Inl e' \<Rightarrow> if is_NameError e' then Inr None else Inl e')
                  else Inl e))
      else Inr None)"

subsection \<open>Discovery of the local submodules\<close>

text \<open>
  The root package path of \<^verbatim>\<open>_find_local_submodules\<close>: the \<^verbatim>\<open>try\<close> block falls back to
  the package path itself on \<^verbatim>\<open>ValueError\<close> only.
\<close>

definition root_pkgpath :: "env \<Rightarrow> path \<Rightarrow> error + path" where
  "root_pkgpath env pkgpath =
     (case split_modpath env pkgpath of
        Inr (a, b) \<Rightarrow> Inr (path_join env a (first_component b))
      | Inl e \<Rightarrow> if is_ValueError e then Inr pkgpath else Inl e)"

text \<open>
  The \<^verbatim>\<open>for\<close> loop of \<^verbatim>\<open>_find_local_submodules\<close> over the paths the package walk
  yields.  A path whose relative name is empty (the package's own \<^verbatim>\<open>__init__.py\<close>, whose
  module name is the package name) or starts with an underscore is skipped.  Slicing
  \<^verbatim>\<open>None\<close> raises \<^verbatim>\<open>TypeError\<close>.
\<close>

fun local_submodules_loop ::
  "env \<Rightarrow> string \<Rightarrow> path \<Rightarrow> path list \<Rightarrow> error + (string \<times> path) list" where
  "local_submodules_loop env pkgname root [] = Inr []"
| "local_submodules_loop env pkgname root (sub_modpath # rest) =
     (case modpath_to_modname env sub_modpath (Some root) of
        None \<Rightarrow> Inl (TypeError ''NoneType object is not subscriptable'')
      | Some sub_modname \<Rightarrow>
          (let rel_modname = drop (length pkgname + 1) sub_modname in
           case local_submodules_loop env pkgname root rest of
             Inl e \<Rightarrow> Inl e
           | Inr found \<Rightarrow>
               if rel_modname = [] \<or> startswith rel_modname ''_'' then Inr found
               else Inr ((rel_modname, sub_modpath) # found)))"

text \<open>\<^verbatim>\<open>_find_local_submodules\<close>, with the generator read to its end.\<close>

definition find_local_submodules :: "env \<Rightarrow> path \<Rightarrow> error + (string \<times> path) list" where
  "find_local_submodules env pkgpath =
     (case modpath_to_modname env pkgpath None of
        None \<Rightarrow> Inl (CannotImport pkgpath)
      | Some pkgname \<Rightarrow>
          (case root_pkgpath env pkgpath of
             Inl e \<Rightarrow> Inl e
           | Inr root \<Rightarrow> local_submodules_loop env pkgname root (package_modpaths env pkgpath)))"

subsection \<open>Collecting the names of one submodule\<close>

text \<open>
  The loop of \<^verbatim>\<open>_static_parse_imports\<close> over \<^verbatim>\<open>attrnames\<close> (lines 209 to 214): a name
  that starts with an underscore or is a built-in name is left out.
\<close>

fun filter_attrnames :: "string list \<Rightarrow> string list \<Rightarrow> string list" where
  "filter_attrnames invalid_callnames [] = []"
| "filter_attrnames invalid_callnames (attr # attrnames) =
     (if startswith attr ''_'' then filter_attrnames invalid_callnames attrnames
      else if attr \<in> set invalid_callnames then filter_attrnames invalid_callnames attrnames
      else attr # filter_attrnames invalid_callnames attrnames)"

text \<open>
  The value of \<^verbatim>\<open>valid_attrs\<close> after the \<^verbatim>\<open>try\<close> of lines 196 to 201: \<^verbatim>\<open>None\<close> when
  \<^verbatim>\<open>use_all\<close> is false or the lookup of \<^verbatim>\<open>__all__\<close> raises \<^verbatim>\<open>NameError\<close>.
\<close>

definition declared_all :: "env \<Rightarrow> bool \<Rightarrow> source \<Rightarrow> error + string list option" where
  "declared_all env use_all source =
     (if use_all then
        (case parse_static_value env ''__all__'' source of
           Inr valid_attrs \<Rightarrow> Inr valid_attrs
         | Inl e \<Rightarrow> if is_NameError e then Inr None else Inl e)
      else Inr None)"

text \<open>The value of \<^verbatim>\<open>valid_attrs\<close> at line 215, for the source text of one submodule.\<close>

definition valid_attrs_of :: "env \<Rightarrow> bool \<Rightarrow> source \<Rightarrow> error + string list" where
  "valid_attrs_of env use_all source =
     (case declared_all env use_all source of
        Inl e \<Rightarrow> Inl e
      | Inr (Some valid_attrs) \<Rightarrow> Inr valid_attrs
      | Inr None \<Rightarrow>
          (case TopLevelVisitor_parse env source of
             Inl e \<Rightarrow> Inl e
           | Inr attrnames \<Rightarrow> Inr (filter_attrnames (dir_builtins env) attrnames)))"

text \<open>
  One pass of the loop of \<^verbatim>\<open>_static_parse_imports\<close> (lines 183 to 215): the entry
  appended to \<^verbatim>\<open>from_imports\<close> for \<open>rel_modname\<close>, or the exception raised.
\<close>

definition from_import ::
  "env \<Rightarrow> bool \<Rightarrow> (string \<times> path option) list \<Rightarrow> string \<Rightarrow> error + string \<times> string list" where
  "from_import env use_all import_paths rel_modname =
     (case map_of import_paths rel_modname of
        None \<Rightarrow> Inl (KeyError rel_modname)
      | Some None \<Rightarrow> Inl (FailedToLookup rel_modname)
      | Some (Some sub_modpath) \<Rightarrow>
          (case open_read env sub_modpath (if PY2 env then None else Some ''utf8'') of
             Inl ex \<Rightarrow> Inl (ErrorReading sub_modpath ex)
           | Inr source \<Rightarrow>
               (case valid_attrs_of env use_all source of
                  Inl e \<Rightarrow> Inl e
                | Inr valid_attrs \<Rightarrow> Inr (rel_modname, sort valid_attrs))))"

text \<open>The loop itself: it stops at the first exception.\<close>

fun from_imports_loop ::
  "env \<Rightarrow> bool \<Rightarrow> (string \<times> path option) list \<Rightarrow> string list \<Rightarrow>
     error + (string \<times> string list) list" where
  "from_imports_loop env use_all import_paths [] = Inr []"
| "from_imports_loop env use_all import_paths (rel_modname # rest) =
     (case from_import env use_all import_paths rel_modname of
        Inl e \<Rightarrow> Inl e
      | Inr entry \<Rightarrow>
          (case from_imports_loop env use_all import_paths rest of
             Inl e \<Rightarrow> Inl e
           | Inr entries \<Rightarrow> Inr (entry # entries)))"

subsection \<open>The submodule set and the manifest\<close>

text \<open>
  Lines 170 to 179 of \<^verbatim>\<open>_static_parse_imports\<close>: the dictionary \<^verbatim>\<open>import_paths\<close> and
  the list \<^verbatim>\<open>imports\<close> the loop runs over.  An explicit list is kept in its order and
  every entry is looked up; without one, the discovered names are sorted.
\<close>

definition resolve_imports ::
  "env \<Rightarrow> path \<Rightarrow> string option \<Rightarrow> string list option \<Rightarrow>
     error + (string \<times> path option) list \<times> string list" where
  "resolve_imports env modpath modname imports =
     (case imports of
        Some ims \<Rightarrow>
          (case modname of
             None \<Rightarrow> Inl (AssertionError ''modname is None'')
           | Some name \<Rightarrow>
               Inr (dict (map (\<lambda>m. (m, modname_to_modpath env (name @ ''.'' @ m) False)) ims),
                    ims))
      | None \<Rightarrow>
          (case find_local_submodules env modpath of
             Inl e \<Rightarrow> Inl e
           | Inr found \<Rightarrow>
               (let import_paths = dict (map (\<lambda>(rel_modname, sub_modpath).
                                               (rel_modname, Some sub_modpath)) found)
                in Inr (import_paths, sort (keys import_paths)))))"

text \<open>\<^verbatim>\<open>_static_parse_imports\<close>: the triple \<^verbatim>\<open>(modname, imports, from_imports)\<close>.\<close>

definition static_parse_imports ::
  "env \<Rightarrow> path \<Rightarrow> string list option \<Rightarrow> bool \<Rightarrow>
     error + string option \<times> string list \<times> (string \<times> string list) list" where
  "static_parse_imports env modpath imports use_all =
     (let modname = modpath_to_modname env modpath None in
      case resolve_imports env modpath modname imports of
        Inl e \<Rightarrow> Inl e
      | Inr (import_paths, imports') \<Rightarrow>
          (case from_imports_loop env use_all import_paths imports' of
             Inl e \<Rightarrow> Inl e
           | Inr from_imports \<Rightarrow> Inr (modname, imports', from_imports)))"

text \<open>
  \<^verbatim>\<open>static_init\<close> up to its last step: the triple it hands to the renderer
  \<^verbatim>\<open>_initstr\<close> of \<^verbatim>\<open>mkinit.formatting\<close>.
\<close>

definition static_init_manifest ::
  "env \<Rightarrow> string \<Rightarrow> string list option \<Rightarrow> bool \<Rightarrow>
     error + string option \<times> string list \<times> (string \<times> string list) list" where
  "static_init_manifest env modpath_or_name imports use_all =
     (case rectify_to_modpath env modpath_or_name of
        Inl e \<Rightarrow> Inl e
      | Inr modpath \<Rightarrow>
          (case (case imports of
                   None \<Rightarrow> parse_submodule_definition env modpath
                 | Some ims \<Rightarrow> Inr (Some ims)) of
             Inl e \<Rightarrow> Inl e
           | Inr imports' \<Rightarrow> static_parse_imports env modpath imports' use_all))"

section \<open>The reachability analyzer\<close>

text \<open>
  Modelled from the spec: the class \<^verbatim>\<open>TopLevelVisitor\<close> of \<^verbatim>\<open>mkinit/top_level_ast.py\<close>
  is not among the sources; \<^verbatim>\<open>static_mkinit.py\<close> only calls it.  The definitions of this
  section follow the Reachability Analyzer of the specification (section 4.1 and the design
  notes): a module is a list of top-level statements, a conditional is a chain of guarded
  branches with an optional unconditional \<^verbatim>\<open>else\<close>, a protected block is a body with its
  handlers, and a guard has one of three static truth values.
\<close>

datatype literal = LTrue | LFalse | LNone | LInt int | LStr string

datatype cmpop = Eq | NotEq | Lt | LtE | Gt | GtE

datatype expr =
    Lit literal
  | Tuple "expr list"
  | Name string
  | Compare expr cmpop expr
  | BoolAnd expr expr
  | BoolOr expr expr
  | BoolNot expr
  | Dynamic

datatype truth = AlwaysTrue | AlwaysFalse | Indeterminate

datatype stmt =
    Assign string
  | FunctionDef string
  | ClassDef string
  | Import string
  | Conditional "(expr \<times> stmt list) list" "stmt list option"
  | Protected "stmt list" "stmt list list"
  | Raise
  | Unsupported

fun truth_of :: "bool \<Rightarrow> truth" where
  "truth_of True = AlwaysTrue"
| "truth_of False = AlwaysFalse"

text \<open>
  Modelled from the spec: the truthiness of a literal value in the host language
  (\<^verbatim>\<open>top_level_ast.py\<close> is missing).
\<close>

fun literal_truth :: "literal \<Rightarrow> bool" where
  "literal_truth LTrue = True"
| "literal_truth LFalse = False"
| "literal_truth LNone = False"
| "literal_truth (LInt n) = (n \<noteq> 0)"
| "literal_truth (LStr s) = (s \<noteq> [])"

fun compare_order :: "cmpop \<Rightarrow> ('a::linorder) \<Rightarrow> 'a \<Rightarrow> bool" where
  "compare_order Eq x y = (x = y)"
| "compare_order NotEq x y = (x \<noteq> y)"
| "compare_order Lt x y = (x < y)"
| "compare_order LtE x y = (x \<le> y)"
| "compare_order Gt x y = (y < x)"
| "compare_order GtE x y = (y \<le> x)"

text \<open>
  Modelled from the spec: a comparison between two literals (\<^verbatim>\<open>top_level_ast.py\<close> is
  missing), decided for two integers, two strings and two equal literals, left open
  otherwise.
\<close>

fun compare_literals :: "cmpop \<Rightarrow> literal \<Rightarrow> literal \<Rightarrow> bool option" where
  "compare_literals op (LInt x) (LInt y) = Some (compare_order op x y)"
| "compare_literals op (LStr x) (LStr y) = Some (compare_order op x y)"
| "compare_literals Eq x y = (if x = y then Some True else None)"
| "compare_literals NotEq x y = (if x = y then Some False else None)"
| "compare_literals op x y = None"

text \<open>
  Modelled from the spec: the literal an operand of a comparison stands for
  (\<^verbatim>\<open>top_level_ast.py\<close> is missing).  The table \<open>known\<close> gives the names
  already proven to hold a literal value; the specification does not say how it is built,
  so every property below is stated for an arbitrary table.
\<close>

fun static_value :: "(string \<Rightarrow> literal option) \<Rightarrow> expr \<Rightarrow> literal option" where
  "static_value known (Lit l) = Some l"
| "static_value known (Name n) = known n"
| "static_value known e = None"

text \<open>
  Modelled from the spec: the check of the module's own runtime identity,
  \<^verbatim>\<open>__name__ == '__main__'\<close> (\<^verbatim>\<open>top_level_ast.py\<close> is missing).
\<close>

fun is_main_check :: "expr \<Rightarrow> bool" where
  "is_main_check (Compare (Name n) Eq (Lit (LStr s))) = (n = ''__name__'' \<and> s = ''__main__'')"
| "is_main_check e = False"

fun truth_not :: "truth \<Rightarrow> truth" where
  "truth_not AlwaysTrue = AlwaysFalse"
| "truth_not AlwaysFalse = AlwaysTrue"
| "truth_not Indeterminate = Indeterminate"

fun truth_and :: "truth \<Rightarrow> truth \<Rightarrow> truth" where
  "truth_and AlwaysFalse t = AlwaysFalse"
| "truth_and AlwaysTrue t = t"
| "truth_and Indeterminate AlwaysFalse = AlwaysFalse"
| "truth_and Indeterminate t = Indeterminate"

fun truth_or :: "truth \<Rightarrow> truth \<Rightarrow> truth" where
  "truth_or AlwaysTrue t = AlwaysTrue"
| "truth_or AlwaysFalse t = t"
| "truth_or Indeterminate AlwaysTrue = AlwaysTrue"
| "truth_or Indeterminate t = Indeterminate"

text \<open>
  Modelled from the spec: the three-valued evaluator of guards (\<^verbatim>\<open>top_level_ast.py\<close> is
  missing): literals, comparisons between literals, boolean combinations and references to
  names known to hold a literal; the identity check is never taken; everything else is
  indeterminate.  A tuple display is true when it has an element, as the test package
  expects of \<^verbatim>\<open>elif (1, 2):\<close>.
\<close>

fun static_truth :: "(string \<Rightarrow> literal option) \<Rightarrow> expr \<Rightarrow> truth" where
  "static_truth known (Lit l) = truth_of (literal_truth l)"
| "static_truth known (Tuple es) = truth_of (es \<noteq> [])"
| "static_truth known (Name n) =
     (case known n of None \<Rightarrow> Indeterminate | Some l \<Rightarrow> truth_of (literal_truth l))"
| "static_truth known (Compare a op b) =
     (if is_main_check (Compare a op b) then AlwaysFalse
      else (case (static_value known a, static_value known b) of
              (Some x, Some y) \<Rightarrow>
                (case compare_literals op x y of None \<Rightarrow> Indeterminate | Some t \<Rightarrow> truth_of t)
            | _ \<Rightarrow> Indeterminate))"
| "static_truth known (BoolAnd a b) = truth_and (static_truth known a) (static_truth known b)"
| "static_truth known (BoolOr a b) = truth_or (static_truth known a) (static_truth known b)"
| "static_truth known (BoolNot a) = truth_not (static_truth known a)"
| "static_truth known Dynamic = Indeterminate"

text \<open>
  Modelled from the spec: a block that unconditionally raises never completes
  (\<^verbatim>\<open>top_level_ast.py\<close> is missing).
\<close>

definition raises :: "stmt list \<Rightarrow> bool" where
  "raises block = (Raise \<in> set block)"

text \<open>
  Modelled from the spec: the branches of a chain that can be the one executed, in order
  (\<^verbatim>\<open>top_level_ast.py\<close> is missing).  A never-taken branch is dropped, an always-taken
  branch ends the chain as an unconditional \<^verbatim>\<open>else\<close> does, and the branches behind it are
  not looked at.  \<open>None\<close> means the chain is not exhaustive.  An always-taken branch
  behind an indeterminate one is a path like the others, since the analyzer must never
  include a name that might not be bound; the test package expects this of
  \<^verbatim>\<open>if flag1: ... elif 1: bad_attr_09 = 1\<close>.
\<close>

fun paths_of :: "(truth \<times> 'a) list \<Rightarrow> 'a option \<Rightarrow> 'a list option" where
  "paths_of [] None = None"
| "paths_of [] (Some e) = Some [e]"
| "paths_of ((AlwaysFalse, b) # rest) els = paths_of rest els"
| "paths_of ((AlwaysTrue, b) # rest) els = Some [b]"
| "paths_of ((Indeterminate, b) # rest) els = map_option ((#) b) (paths_of rest els)"

text \<open>
  Modelled from the spec: the names bound on every one of the given paths
  (\<^verbatim>\<open>top_level_ast.py\<close> is missing).
\<close>

fun common :: "string list list \<Rightarrow> string list" where
  "common [] = []"
| "common (ns # nss) = filter (\<lambda>n. \<forall>ms \<in> set nss. n \<in> set ms) ns"

text \<open>
  Modelled from the spec: the paths that complete, each with the names it binds
  (\<^verbatim>\<open>top_level_ast.py\<close> is missing).
\<close>

fun completed :: "(bool \<times> string list) list \<Rightarrow> string list list" where
  "completed [] = []"
| "completed ((r, ns) # ps) = (if r then completed ps else ns # completed ps)"

text \<open>
  Modelled from the spec: the names a statement, and a block, bind on every execution
  that completes (the visitor methods of \<^verbatim>\<open>top_level_ast.py\<close> are missing).  An
  exhaustive chain binds the names common to its completing paths, a chain that is not
  exhaustive binds none; a protected block binds the names common to its body and its
  handlers, those that raise left out.
\<close>

fun stmt_names :: "(string \<Rightarrow> literal option) \<Rightarrow> stmt \<Rightarrow> string list"
  and block_names :: "(string \<Rightarrow> literal option) \<Rightarrow> stmt list \<Rightarrow> string list" where
  "stmt_names known (Assign n) = [n]"
| "stmt_names known (FunctionDef n) = [n]"
| "stmt_names known (ClassDef n) = [n]"
| "stmt_names known (Import n) = [n]"
| "stmt_names known (Conditional branches els) =
     (case paths_of (map (\<lambda>(g, b). (static_truth known g, (raises b, block_names known b)))
                         branches)
                    (map_option (\<lambda>b. (raises b, block_names known b)) els) of
        None \<Rightarrow> []
      | Some paths \<Rightarrow> common (completed paths))"
| "stmt_names known (Protected body handlers) =
     common (completed ((raises body, block_names known body) #
                         map (\<lambda>h. (raises h, block_names known h)) handlers))"
| "stmt_names known Raise = []"
| "stmt_names known Unsupported = []"
| "block_names known [] = []"
| "block_names known (s # ss) = stmt_names known s @ block_names known ss"

text \<open>
  Modelled from the spec: the names a branch contributes when it is the one executed, none
  when it raises (\<^verbatim>\<open>top_level_ast.py\<close> is missing).
\<close>

definition branch_names :: "(string \<Rightarrow> literal option) \<Rightarrow> stmt list \<Rightarrow> string list" where
  "branch_names known body = (if raises body then [] else block_names known body)"

text \<open>
  Modelled from the spec: the table of known literals of a module in which no name has been
  proven to hold a literal (\<^verbatim>\<open>top_level_ast.py\<close> is missing).
\<close>

definition nothing_known :: "string \<Rightarrow> literal option" where
  "nothing_known n = None"

text \<open>
  Modelled from the spec: the always-bound names of a module, each once, which is the
  attribute \<^verbatim>\<open>attrnames\<close> of the missing \<^verbatim>\<open>TopLevelVisitor\<close>.
\<close>

definition attrnames :: "(string \<Rightarrow> literal option) \<Rightarrow> stmt list \<Rightarrow> string list" where
  "attrnames known tree = remdups (block_names known tree)"

section \<open>Sample packages\<close>

text \<open>
  A small world to run the functions in: tables for the files and what reading them gives,
  the module name of a path, the paths a package walk yields, the values the static
  evaluator finds in a source text (\<^verbatim>\<open>NameError\<close> for a variable that is not in the
  table) and the names the top-level visitor reports for a source text.
\<close>

definition sample_env ::
  "(path \<times> (error + source)) list \<Rightarrow> (path \<times> string) list \<Rightarrow> (path \<times> path list) list \<Rightarrow>
   ((string \<times> source) \<times> (error + string list option)) list \<Rightarrow>
   (source \<times> (error + string list)) list \<Rightarrow> env" where
  "sample_env files modnames listing statics analysed =
     \<lparr> PY2 = False,
       path_exists = (\<lambda>p. p \<in> set (map fst files @ map fst listing)),
       abspath = (\<lambda>p. p),
       path_join = (\<lambda>a b. a @ ''/'' @ b),
       open_read = (\<lambda>p enc. case map_of files p of
                                None \<Rightarrow> Inl (OSError ''No such file or directory'')
                              | Some r \<Rightarrow> r),
       parse_static_value = (\<lambda>key source. case map_of statics (key, source) of
                                None \<Rightarrow> Inl (NameError key)
                              | Some r \<Rightarrow> r),
       modname_to_modpath = (\<lambda>name hide_init. map_of (map (\<lambda>(p, n). (n, p)) modnames) name),
       modpath_to_modname = (\<lambda>p relativeto. map_of modnames p),
       split_modpath = (\<lambda>p. Inl (ValueError ''not in a package'')),
       package_modpaths = (\<lambda>p. case map_of listing p of None \<Rightarrow> [] | Some ps \<Rightarrow> ps),
       TopLevelVisitor_parse = (\<lambda>source. case map_of analysed source of
                                None \<Rightarrow> Inl (SyntaxError ''invalid syntax'')
                              | Some r \<Rightarrow> r),
       dir_builtins = [''abs'', ''len'', ''open'', ''print''] \<rparr>"

text \<open>
  The package \<^verbatim>\<open>/src/pkg\<close> with the modules \<^verbatim>\<open>sub2\<close>, \<^verbatim>\<open>sub1\<close> and the private
  \<^verbatim>\<open>_sub3\<close>, which the walk yields in this order after the package's own
  \<^verbatim>\<open>__init__.py\<close>.
\<close>

definition pkg_modnames :: "(path \<times> string) list" where
  "pkg_modnames =
     [(''/src/pkg'', ''pkg''),
      (''/src/pkg/__init__.py'', ''pkg''),
      (''/src/pkg/sub2.py'', ''pkg.sub2''),
      (''/src/pkg/sub1.py'', ''pkg.sub1''),
      (''/src/pkg/_sub3.py'', ''pkg._sub3'')]"

definition pkg_listing :: "(path \<times> path list) list" where
  "pkg_listing =
     [(''/src/pkg'', [''/src/pkg/__init__.py'', ''/src/pkg/sub2.py'', ''/src/pkg/sub1.py'',
                      ''/src/pkg/_sub3.py''])]"

definition sub1_source :: source where
  \<open>sub1_source = ''zeta = 1; _priv = 2; len = 3; alpha = 4''\<close>

definition sub2_source :: source where
  \<open>sub2_source = ''__all__ = ["x", "len", "_hidden"]''\<close>

definition sub3_source :: source where
  \<open>sub3_source = ''hidden = 1''\<close>

definition pkg_analysed :: "(source \<times> (error + string list)) list" where
  "pkg_analysed =
     [([], Inr []),
      (sub1_source, Inr [''zeta'', ''_priv'', ''len'', ''alpha'']),
      (sub2_source, Inr [''__all__'']),
      (sub3_source, Inr [''hidden''])]"

text \<open>The package as it is: an empty \<^verbatim>\<open>__init__.py\<close>, every file readable.\<close>

definition pkg_env :: env where
  "pkg_env = sample_env
     [(''/src/pkg/__init__.py'', Inr []),
      (''/src/pkg/sub2.py'', Inr sub2_source),
      (''/src/pkg/sub1.py'', Inr sub1_source),
      (''/src/pkg/_sub3.py'', Inr sub3_source)]
     pkg_modnames pkg_listing
     [((''__all__'', sub2_source), Inr (Some [''x'', ''len'', ''_hidden'']))]
     pkg_analysed"

text \<open>The same package when \<^verbatim>\<open>sub2.py\<close> cannot be opened.\<close>

definition unreadable_env :: env where
  "unreadable_env = sample_env
     [(''/src/pkg/__init__.py'', Inr []),
      (''/src/pkg/sub2.py'', Inl (OSError ''Permission denied'')),
      (''/src/pkg/sub1.py'', Inr sub1_source),
      (''/src/pkg/_sub3.py'', Inr sub3_source)]
     pkg_modnames pkg_listing [] pkg_analysed"

text \<open>
  The same package when \<^verbatim>\<open>sub2.py\<close> computes its \<^verbatim>\<open>__all__\<close>: the static evaluator
  finds the assignment and raises on its right-hand side, which is not a literal.
\<close>

definition computed_source :: source where
  \<open>computed_source = ''beta = 1; __all__ = [n for n in dir() if n[0] != "_"]''\<close>

definition computed_env :: env where
  "computed_env = sample_env
     [(''/src/pkg/__init__.py'', Inr []),
      (''/src/pkg/sub2.py'', Inr computed_source),
      (''/src/pkg/sub1.py'', Inr sub1_source),
      (''/src/pkg/_sub3.py'', Inr sub3_source)]
     pkg_modnames pkg_listing
     [((''__all__'', computed_source),
       Inl (TypeError ''Cannot parse a static value from non-static node''))]
     ((computed_source, Inr [''beta'', ''__all__'']) # pkg_analysed)"

text \<open>
  The same package when its \<^verbatim>\<open>__init__.py\<close> computes \<^verbatim>\<open>__submodules__\<close>: again the
  static evaluator raises on the right-hand side.
\<close>

definition computed_init_source :: source where
  \<open>computed_init_source = ''__submodules__ = sorted(["sub2", "sub1"])''\<close>

definition computed_init_env :: env where
  "computed_init_env = sample_env
     [(''/src/pkg/__init__.py'', Inr computed_init_source),
      (''/src/pkg/sub2.py'', Inr sub2_source),
      (''/src/pkg/sub1.py'', Inr sub1_source),
      (''/src/pkg/_sub3.py'', Inr sub3_source)]
     pkg_modnames pkg_listing
     [((''__all__'', sub2_source), Inr (Some [''x'', ''len'', ''_hidden''])),
      ((''__submodules__'', computed_init_source),
       Inl (TypeError ''Cannot parse a static value from non-static node''))]
     ((computed_init_source, Inr [''__submodules__'']) # pkg_analysed)"

text \<open>The same package when its \<^verbatim>\<open>__init__.py\<close> declares both spellings.\<close>

definition declaring_init_source :: source where
  \<open>declaring_init_source = ''__submodules__ = ["sub2", "sub1"]; __SUBMODULES__ = ["sub1"]''\<close>

definition declaring_env :: env where
  "declaring_env = sample_env
     [(''/src/pkg/__init__.py'', Inr declaring_init_source),
      (''/src/pkg/sub2.py'', Inr sub2_source),
      (''/src/pkg/sub1.py'', Inr sub1_source),
      (''/src/pkg/_sub3.py'', Inr sub3_source)]
     pkg_modnames pkg_listing
     [((''__all__'', sub2_source), Inr (Some [''x'', ''len'', ''_hidden''])),
      ((''__submodules__'', declaring_init_source), Inr (Some [''sub2'', ''sub1''])),
      ((''__SUBMODULES__'', declaring_init_source), Inr (Some [''sub1'']))]
     ((declaring_init_source, Inr [''__submodules__'', ''__SUBMODULES__'']) # pkg_analysed)"

text \<open>
  A nested package: \<^verbatim>\<open>/src/top/mid\<close> inside the root package \<^verbatim>\<open>/src/top\<close>, with the
  modules \<^verbatim>\<open>b\<close>, \<^verbatim>\<open>a\<close>, the private \<^verbatim>\<open>_c\<close> and the subpackage \<^verbatim>\<open>deep\<close>.  The
  module name of a path depends on the path it is taken relative to: relative to the root
  package it starts with \<^verbatim>\<open>top.mid\<close>, relative to \<^verbatim>\<open>/src/top/mid\<close> it starts with
  \<^verbatim>\<open>mid\<close>.  Splitting the package path gives the directory of the root package and the
  path below it.
\<close>

definition nested_modnames :: "((path \<times> path option) \<times> string) list" where
  "nested_modnames =
     [((''/src/top/mid'', None), ''top.mid''),
      ((''/src/top/mid/__init__.py'', Some ''/src/top''), ''top.mid''),
      ((''/src/top/mid/b.py'', Some ''/src/top''), ''top.mid.b''),
      ((''/src/top/mid/a.py'', Some ''/src/top''), ''top.mid.a''),
      ((''/src/top/mid/_c.py'', Some ''/src/top''), ''top.mid._c''),
      ((''/src/top/mid/deep/__init__.py'', Some ''/src/top''), ''top.mid.deep''),
      ((''/src/top/mid/__init__.py'', Some ''/src/top/mid''), ''mid''),
      ((''/src/top/mid/b.py'', Some ''/src/top/mid''), ''mid.b''),
      ((''/src/top/mid/a.py'', Some ''/src/top/mid''), ''mid.a''),
      ((''/src/top/mid/_c.py'', Some ''/src/top/mid''), ''mid._c''),
      ((''/src/top/mid/deep/__init__.py'', Some ''/src/top/mid''), ''mid.deep'')]"

definition nested_env :: env where
  "nested_env =
     (sample_env
        [(''/src/top/__init__.py'', Inr []),
         (''/src/top/mid/__init__.py'', Inr []),
         (''/src/top/mid/b.py'', Inr ''second = 2''),
         (''/src/top/mid/a.py'', Inr ''first = 1''),
         (''/src/top/mid/_c.py'', Inr sub3_source),
         (''/src/top/mid/deep/__init__.py'', Inr ''third = 3'')]
        []
        [(''/src/top/mid'',
          [''/src/top/mid/__init__.py'', ''/src/top/mid/b.py'', ''/src/top/mid/a.py'',
           ''/src/top/mid/_c.py'', ''/src/top/mid/deep/__init__.py''])]
        []
        [([], Inr []), (''second = 2'', Inr [''second'']), (''first = 1'', Inr [''first'']),
         (sub3_source, Inr [''hidden'']), (''third = 3'', Inr [''third''])])
     \<lparr> modpath_to_modname := (\<lambda>p relativeto. map_of nested_modnames (p, relativeto)),
       split_modpath := (\<lambda>p. if p = ''/src/top/mid'' then Inr (''/src'', ''top/mid'')
                              else Inl (ValueError ''not in a package'')) \<rparr>"

text \<open>
  A package with one module, whose source is the two conditionals
  \<^verbatim>\<open>if True: a = 1\<close> and \<^verbatim>\<open>if False: b = 1\<close>, analysed by the model of the
  reachability analyzer above.
\<close>

definition guards_source :: source where
  "guards_source = ''if True: a = 1'' @ [CHR 0x0A] @ ''if False: b = 1''"

definition guards_tree :: "stmt list" where
  "guards_tree =
     [Conditional [(Lit LTrue, [Assign ''a''])] None,
      Conditional [(Lit LFalse, [Assign ''b''])] None]"

definition guards_env :: env where
  "guards_env = sample_env
     [(''/src/one/__init__.py'', Inr []),
      (''/src/one/guards.py'', Inr guards_source)]
     [(''/src/one'', ''one''),
      (''/src/one/__init__.py'', ''one''),
      (''/src/one/guards.py'', ''one.guards'')]
     [(''/src/one'', [''/src/one/__init__.py'', ''/src/one/guards.py''])]
     []
     [(guards_source, Inr (attrnames (\<lambda>n. None) guards_tree))]"

text \<open>
  The module \<^verbatim>\<open>submod1.py\<close> that \<^verbatim>\<open>make_dummy_package\<close> of
  \<^verbatim>\<open>tests/test_with_dummy.py\<close> writes, as a tree; \<^verbatim>\<open>pass\<close> and the values assigned are
  left out, and an expression the evaluator does not know is \<open>Dynamic\<close>.
\<close>

definition submod1 :: "stmt list" where
  "submod1 =
    [Import ''six'', Assign ''attr1'', Assign ''attr2'',
     Conditional [(Lit LTrue, [Assign ''good_attr_01''])] None,
     Conditional [(Lit LFalse, [Assign ''bad_attr_false1''])] None,
     Conditional [(Lit LNone, [Assign ''bad_attr_none1''])] None,
     Conditional [(Lit LTrue, [Assign ''good_attr_02''])] (Some [Assign ''bad_attr_true2'']),
     Conditional [(Lit LFalse, [Assign ''bad_attr_false2''])] (Some [Assign ''good_attr_03'']),
     Conditional [(Lit LNone, [Assign ''bad_attr_none2''])] (Some [Assign ''good_attr_04'']),
     Conditional [(Lit LTrue, [Assign ''good_attr_05'']),
                  (Lit LFalse, [Assign ''bad_attr3''])]
                 (Some [Assign ''bad_attr3'']),
     Conditional [(Lit LFalse, [Assign ''bad_attr_elif_True3_0'']),
                  (Lit LTrue, [Assign ''good_attr_06''])]
                 (Some [Assign ''bad_attr_elif_True3_1'']),
     Import ''sys'',
     Conditional [(Compare Dynamic Eq (Lit (LInt 3)),
                   [Assign ''good_attr_07'', Assign ''bad_attr_uncommon4_1''])]
                 (Some [Assign ''good_attr_07'', Assign ''bad_attr_uncommon4_0'']),
     Conditional [(Compare Dynamic Eq (Name ''good_attr_07''),
                   [Assign ''good_attr_08'', Assign ''bad_attr_uncommon5_1'',
                    Assign ''bad_attr_uncommon5_0'']),
                  (Name ''sys'', [Assign ''good_attr_08'', Assign ''bad_attr_uncommon5_1''])]
                 (Some [Assign ''good_attr_08'', Assign ''bad_attr_uncommon5_0'']),
     Assign ''flag1'', Assign ''flag2'', Assign ''flag3'',
     Conditional [(Name ''flag1'', [Assign ''bad_attr_num6'']),
                  (Name ''flag2'', [Assign ''bad_attr_num6'']),
                  (Name ''flag3'', [Assign ''bad_attr_num6''])] None,
     Conditional [(Name ''flag1'', [Assign ''bad_attr_num6_0'']),
                  (Lit (LInt 0), [Assign ''bad_attr_num0'']),
                  (Lit (LInt 1), [Assign ''bad_attr_09''])]
                 (Some [Assign ''bad_attr13'']),
     Conditional [(Name ''flag1'', [Assign ''good_attr_09'']),
                  (Lit (LInt 1), [Assign ''good_attr_09'', Assign ''bad_attr_09_1'']),
                  (Compare (Lit (LInt 2)) Eq (Lit (LInt 3)), [Unsupported])] None,
     Conditional [(Lit (LStr ''foobar''), [Assign ''good_attr_10''])] None,
     Conditional [(Lit LFalse, [Assign ''bad_attr_str7'']),
                  (Tuple [Lit (LInt 1), Lit (LInt 2)], [Assign ''good_attr_11'']),
                  (Lit LTrue, [Assign ''bad_attr_true8''])] None,
     Conditional [(Compare (Name ''flag1'') NotEq (Name ''flag2''), [Assign ''good_attr_12''])]
                 (Some [Assign ''bad_attr_12'', Raise]),
     Protected [Assign ''good_attr_13'', Assign ''bad_attr_13''] [[Assign ''good_attr_13'']],
     Protected [Assign ''good_attr_14''] [[Assign ''bad_attr_14'', Raise]],
     FunctionDef ''func1'', ClassDef ''class1'',
     Conditional [(Compare (Name ''__name__'') Eq (Lit (LStr ''__main__'')),
                   [Assign ''bad_attr_main''])] None,
     Conditional [(Compare (Name ''__name__'') Eq (Lit (LStr ''something_else'')),
                   [Assign ''bad_something_else''])] None]"


section \<open>Properties\<close>

subsection \<open>Auxiliary facts\<close>

lemma filter_attrnames_filter:
  "filter_attrnames invalid names =
     filter (\<lambda>attr. \<not> startswith attr ''_'' \<and> attr \<notin> set invalid) names"
  by (induction names) simp_all

lemma map_of_foldl_update:
  "map_of (foldl (\<lambda>d (k, v). AList.update k v d) d pairs) = map_of d ++ map_of (rev pairs)"
proof (induction pairs arbitrary: d)
  case Nil
  show ?case by simp
next
  case (Cons kv pairs)
  obtain k v where kv: "kv = (k, v)" by (cases kv)
  have "map_of (AList.update k v d) ++ map_of (rev pairs)
          = map_of d ++ (map_of (rev pairs @ [(k, v)]))"
    by (simp add: update_conv' map_add_upd_left fun_eq_iff map_add_def split: option.splits)
  with Cons.IH [of "AList.update k v d"] kv show ?case by simp
qed

lemma map_of_dict: "map_of (dict pairs) = map_of (rev pairs)"
  by (simp add: dict_def map_of_foldl_update)

lemma keys_foldl_update:
  "fst ` set (foldl (\<lambda>d (k, v). AList.update k v d) d pairs) = fst ` set d \<union> fst ` set pairs"
proof (induction pairs arbitrary: d)
  case Nil
  show ?case by simp
next
  case (Cons kv pairs)
  obtain k v where kv: "kv = (k, v)" by (cases kv)
  have "fst ` set (AList.update k v d) = {k} \<union> fst ` set d"
    by (rule dom_update)
  with Cons.IH [of "AList.update k v d"] kv show ?case by auto
qed

lemma distinct_foldl_update:
  "distinct (map fst d) \<Longrightarrow>
     distinct (map fst (foldl (\<lambda>d (k, v). AList.update k v d) d pairs))"
  by (induction pairs arbitrary: d) (auto simp: distinct_update split: prod.splits)

lemma set_keys_dict: "set (keys (dict pairs)) = fst ` set pairs"
  by (simp add: keys_def dict_def keys_foldl_update)

lemma distinct_keys_dict: "distinct (keys (dict pairs))"
  by (simp add: keys_def dict_def distinct_foldl_update)

lemma map_of_dict_comprehension:
  assumes "m \<in> set ims"
  shows "map_of (dict (map (\<lambda>m. (m, f m)) ims)) m = Some (f m)"
proof -
  from assms have "m \<in> set (rev ims)" by simp
  then have "map_of (map (\<lambda>m. (m, f m)) (rev ims)) m = Some (f m)"
    by (induction "rev ims" arbitrary: ims) (auto simp: map_of_map_restrict)
  then show ?thesis by (simp add: map_of_dict rev_map)
qed

lemma from_import_fst:
  "from_import env use_all import_paths m = Inr entry \<Longrightarrow> fst entry = m"
  by (auto simp: from_import_def split: option.splits sum.splits)

lemma from_imports_loop_Inr:
  "from_imports_loop env use_all import_paths ims = Inr entries \<Longrightarrow>
     list_all2 (\<lambda>m entry. from_import env use_all import_paths m = Inr entry) ims entries"
  by (induction ims arbitrary: entries) (auto split: sum.splits)

lemma from_imports_loop_names:
  assumes "from_imports_loop env use_all import_paths ims = Inr entries"
  shows "map fst entries = ims"
proof -
  have "list_all2 (\<lambda>m entry. fst entry = m) ims entries"
    by (rule list_all2_mono [OF from_imports_loop_Inr [OF assms]]) (rule from_import_fst)
  then show ?thesis
    by (induction ims entries rule: list_all2_induct) simp_all
qed

lemma from_imports_loop_first_failure:
  assumes "\<forall>x \<in> set pre. \<exists>entry. from_import env use_all import_paths x = Inr entry"
    and "from_import env use_all import_paths m = Inl e"
  shows "from_imports_loop env use_all import_paths (pre @ m # post) = Inl e"
  using assms by (induction pre) auto

lemma from_imports_loop_fails:
  assumes "m \<in> set ims" and "from_import env use_all import_paths m = Inl e"
  shows "\<exists>e'. from_imports_loop env use_all import_paths ims = Inl e'"
  using assms by (induction ims) (auto split: sum.splits)

lemma local_submodules_loop_set:
  "local_submodules_loop env pkgname root paths = Inr found \<Longrightarrow>
     set found =
       {(rel, p). p \<in> set paths \<and> rel \<noteq> [] \<and> \<not> startswith rel ''_'' \<and>
                  (\<exists>sub. modpath_to_modname env p (Some root) = Some sub \<and>
                         rel = drop (length pkgname + 1) sub)}"
proof (induction paths arbitrary: found)
  case Nil
  then show ?case by auto
next
  case (Cons p paths)
  from Cons.prems obtain sub found' where
    sub: "modpath_to_modname env p (Some root) = Some sub" and
    rest: "local_submodules_loop env pkgname root paths = Inr found'" and
    found: "found = (if drop (length pkgname + 1) sub = [] \<or>
                        startswith (drop (length pkgname + 1) sub) ''_''
                     then found' else (drop (length pkgname + 1) sub, p) # found')"
    by (auto simp: Let_def split: option.splits sum.splits if_splits)
  from Cons.IH [OF rest] sub found show ?case
    by (auto split: if_splits)
qed

lemma is_ValueError_iff: "is_ValueError e \<longleftrightarrow> (\<exists>msg. e = ValueError msg)"
  by (cases e) simp_all

lemma is_NameError_iff: "is_NameError e \<longleftrightarrow> (\<exists>msg. e = NameError msg)"
  by (cases e) simp_all

lemma static_parse_imports_Inr:
  assumes "static_parse_imports env modpath imports use_all = Inr (modname, ims, from_imports)"
  shows "\<exists>import_paths.
           resolve_imports env modpath (modpath_to_modname env modpath None) imports
             = Inr (import_paths, ims) \<and>
           from_imports_loop env use_all import_paths ims = Inr from_imports \<and>
           modname = modpath_to_modname env modpath None"
  using assms by (auto simp: static_parse_imports_def Let_def split: sum.splits)


lemma from_imports_loop_entry:
  assumes "from_imports_loop env use_all import_paths ims = Inr entries" and "m \<in> set ims"
  shows "\<exists>entry \<in> set entries. from_import env use_all import_paths m = Inr entry"
proof -
  from assms(2) obtain i where "i < length ims" "ims ! i = m"
    by (auto simp: in_set_conv_nth)
  with from_imports_loop_Inr [OF assms(1)] show ?thesis
    by (auto simp: list_all2_conv_all_nth intro!: bexI [of _ "entries ! i"])
qed

lemma declared_all_absent:
  assumes "\<not> use_all \<or> (\<exists>msg. parse_static_value env ''__all__'' source = Inl (NameError msg))
             \<or> parse_static_value env ''__all__'' source = Inr None"
  shows "declared_all env use_all source = Inr None"
  using assms by (auto simp: declared_all_def)

subsection \<open>Export lists\<close>

text \<open>
  C2.  When the static lookup of \<^verbatim>\<open>__all__\<close> in a submodule's source gives a list and
  \<^verbatim>\<open>use_all\<close> is true, the entry of that submodule is the declared list, sorted and
  otherwise unchanged: no name is filtered out, and neither the top-level visitor nor the
  list of built-in names is consulted, so the entry is the same whatever they are.  The
  manifest of a run over this submodule holds that entry.
\<close>

theorem explicit_all_verbatim:
  assumes decl: "parse_static_value env ''__all__'' source = Inr (Some declared)"
    and path: "map_of import_paths rel_modname = Some (Some sub_modpath)"
    and read: "open_read env sub_modpath (if PY2 env then None else Some ''utf8'') = Inr source"
  shows "from_import (env\<lparr>TopLevelVisitor_parse := analyzer, dir_builtins := builtins\<rparr>)
           True import_paths rel_modname = Inr (rel_modname, sort declared)
       \<and> (\<forall>modpath imports modname ims from_imports.
             resolve_imports env modpath (modpath_to_modname env modpath None) imports
               = Inr (import_paths, ims) \<longrightarrow>
             rel_modname \<in> set ims \<longrightarrow>
             static_parse_imports env modpath imports True = Inr (modname, ims, from_imports) \<longrightarrow>
             (rel_modname, sort declared) \<in> set from_imports)"
proof (intro conjI allI impI)
  show "from_import (env\<lparr>TopLevelVisitor_parse := analyzer, dir_builtins := builtins\<rparr>)
          True import_paths rel_modname = Inr (rel_modname, sort declared)"
    using decl path read by (simp add: from_import_def valid_attrs_of_def declared_all_def)
next
  fix modpath given modname ims from_imports
  assume res: "resolve_imports env modpath (modpath_to_modname env modpath None) given
                 = Inr (import_paths, ims)"
    and mem: "rel_modname \<in> set ims"
    and run: "static_parse_imports env modpath given True = Inr (modname, ims, from_imports)"
  from run res have "from_imports_loop env True import_paths ims = Inr from_imports"
    by (auto simp: static_parse_imports_def Let_def split: sum.splits)
  from from_imports_loop_entry [OF this mem]
  obtain entry where "entry \<in> set from_imports"
    and "from_import env True import_paths rel_modname = Inr entry" by blast
  moreover have "from_import env True import_paths rel_modname = Inr (rel_modname, sort declared)"
    using decl path read by (simp add: from_import_def valid_attrs_of_def declared_all_def)
  ultimately show "(rel_modname, sort declared) \<in> set from_imports" by simp
qed

theorem explicit_all_verbatim_witness:
  "parse_static_value pkg_env ''__all__'' sub2_source = Inr (Some [''x'', ''len'', ''_hidden''])
   \<and> map_of [(''sub2'', Some ''/src/pkg/sub2.py'')] ''sub2'' = Some (Some ''/src/pkg/sub2.py'')
   \<and> open_read pkg_env ''/src/pkg/sub2.py'' (if PY2 pkg_env then None else Some ''utf8'')
       = Inr sub2_source
   \<and> from_import (pkg_env\<lparr>TopLevelVisitor_parse := (\<lambda>source. Inl (SyntaxError ''unused'')),
                           dir_builtins := [''len'']\<rparr>)
        True [(''sub2'', Some ''/src/pkg/sub2.py'')] ''sub2''
       = Inr (''sub2'', [''_hidden'', ''len'', ''x''])"
proof -
  have decl: "parse_static_value pkg_env ''__all__'' sub2_source
                = Inr (Some [''x'', ''len'', ''_hidden''])"
    by (simp add: pkg_env_def sample_env_def)
  have path: "map_of [(''sub2'', Some ''/src/pkg/sub2.py'')] ''sub2''
                = Some (Some ''/src/pkg/sub2.py'')"
    by simp
  have read: "open_read pkg_env ''/src/pkg/sub2.py'' (if PY2 pkg_env then None else Some ''utf8'')
                = Inr sub2_source"
    by (simp add: pkg_env_def sample_env_def)
  show ?thesis
    using decl path read
      explicit_all_verbatim [OF decl path read,
        where analyzer = "\<lambda>source. Inl (SyntaxError ''unused'')" and builtins = "[''len'']"]
    by simp
qed

text \<open>
  C3.  When a submodule has no usable declaration (\<^verbatim>\<open>use_all\<close> is false, or the lookup
  of \<^verbatim>\<open>__all__\<close> raises \<^verbatim>\<open>NameError\<close>, or its value is \<^verbatim>\<open>None\<close>), its entry is the
  list of names the top-level visitor reports, without the names that start with an
  underscore and without the built-in names, sorted.
\<close>

theorem derived_export_list:
  assumes nodecl: "\<not> use_all
             \<or> (\<exists>msg. parse_static_value env ''__all__'' source = Inl (NameError msg))
             \<or> parse_static_value env ''__all__'' source = Inr None"
    and analysed: "TopLevelVisitor_parse env source = Inr names"
    and path: "map_of import_paths rel_modname = Some (Some sub_modpath)"
    and read: "open_read env sub_modpath (if PY2 env then None else Some ''utf8'') = Inr source"
  shows "from_import env use_all import_paths rel_modname =
           Inr (rel_modname,
                sort (filter (\<lambda>attr. \<not> startswith attr ''_'' \<and> attr \<notin> set (dir_builtins env))
                             names))"
  using declared_all_absent [OF nodecl] analysed path read
  by (simp add: from_import_def valid_attrs_of_def filter_attrnames_filter)

theorem derived_export_list_witness:
  "parse_static_value pkg_env ''__all__'' sub1_source = Inl (NameError ''__all__'')
   \<and> TopLevelVisitor_parse pkg_env sub1_source = Inr [''zeta'', ''_priv'', ''len'', ''alpha'']
   \<and> from_import pkg_env True [(''sub1'', Some ''/src/pkg/sub1.py'')] ''sub1''
       = Inr (''sub1'', [''alpha'', ''zeta''])"
proof -
  have lookup: "parse_static_value pkg_env ''__all__'' sub1_source = Inl (NameError ''__all__'')"
    by (simp add: pkg_env_def sample_env_def sub1_source_def sub2_source_def)
  then have nodecl: "\<not> True
      \<or> (\<exists>msg. parse_static_value pkg_env ''__all__'' sub1_source = Inl (NameError msg))
      \<or> parse_static_value pkg_env ''__all__'' sub1_source = Inr None"
    by simp
  have analysed: "TopLevelVisitor_parse pkg_env sub1_source
                    = Inr [''zeta'', ''_priv'', ''len'', ''alpha'']"
    by (simp add: pkg_env_def sample_env_def pkg_analysed_def sub1_source_def)
  have path: "map_of [(''sub1'', Some ''/src/pkg/sub1.py'')] ''sub1''
                = Some (Some ''/src/pkg/sub1.py'')"
    by simp
  have read: "open_read pkg_env ''/src/pkg/sub1.py'' (if PY2 pkg_env then None else Some ''utf8'')
                = Inr sub1_source"
    by (simp add: pkg_env_def sample_env_def)
  have builtins: "dir_builtins pkg_env = [''abs'', ''len'', ''open'', ''print'']"
    by (simp add: pkg_env_def sample_env_def)
  show ?thesis
    using lookup analysed derived_export_list [OF nodecl analysed path read]
    by (simp add: builtins startswith_def)
qed

text \<open>
  C4, as stated, fails: an export list taken from a declaration is not filtered.  In the
  sample package \<^verbatim>\<open>sub2.py\<close> declares \<^verbatim>\<open>__all__ = ["x", "len", "_hidden"]\<close>, and its
  entry in the manifest holds the private name \<^verbatim>\<open>_hidden\<close> and the built-in name
  \<^verbatim>\<open>len\<close>.
\<close>

theorem export_list_unfiltered_counterexample:
  "static_init_manifest pkg_env ''/src/pkg'' None True =
     Inr (Some ''pkg'', [''sub1'', ''sub2''],
          [(''sub1'', [''alpha'', ''zeta'']), (''sub2'', [''_hidden'', ''len'', ''x''])])
   \<and> startswith ''_hidden'' ''_''
   \<and> ''len'' \<in> set (dir_builtins pkg_env)"
  by code_simp

text \<open>
  C4, amended.  Every export list produced by the derived path (no usable declaration:
  \<^verbatim>\<open>use_all\<close> is false, or the lookup of \<^verbatim>\<open>__all__\<close> raises \<^verbatim>\<open>NameError\<close>, or its
  value is \<^verbatim>\<open>None\<close>) contains no name that starts with an underscore and no built-in
  name.  An export list taken from a declaration is the declared list, whatever names it
  holds (C2).
\<close>

theorem derived_export_list_public:
  assumes nodecl: "\<not> use_all
             \<or> (\<exists>msg. parse_static_value env ''__all__'' source = Inl (NameError msg))
             \<or> parse_static_value env ''__all__'' source = Inr None"
    and path: "map_of import_paths rel_modname = Some (Some sub_modpath)"
    and read: "open_read env sub_modpath (if PY2 env then None else Some ''utf8'') = Inr source"
    and entry: "from_import env use_all import_paths rel_modname = Inr (name, exports)"
  shows "\<forall>attr \<in> set exports. \<not> startswith attr ''_'' \<and> attr \<notin> set (dir_builtins env)"
proof -
  from entry declared_all_absent [OF nodecl] path read
  obtain names where "exports = sort (filter_attrnames (dir_builtins env) names)"
    by (auto simp: from_import_def valid_attrs_of_def split: sum.splits)
  then show ?thesis by (simp add: filter_attrnames_filter)
qed

theorem derived_export_list_public_witness:
  "parse_static_value pkg_env ''__all__'' sub1_source = Inl (NameError ''__all__'')
   \<and> from_import pkg_env True [(''sub1'', Some ''/src/pkg/sub1.py'')] ''sub1''
       = Inr (''sub1'', [''alpha'', ''zeta''])
   \<and> \<not> startswith ''alpha'' ''_'' \<and> ''alpha'' \<notin> set (dir_builtins pkg_env)
   \<and> \<not> startswith ''zeta'' ''_'' \<and> ''zeta'' \<notin> set (dir_builtins pkg_env)"
proof -
  have lookup: "parse_static_value pkg_env ''__all__'' sub1_source = Inl (NameError ''__all__'')"
    by (simp add: pkg_env_def sample_env_def sub1_source_def sub2_source_def)
  then have nodecl: "\<not> True
      \<or> (\<exists>msg. parse_static_value pkg_env ''__all__'' sub1_source = Inl (NameError msg))
      \<or> parse_static_value pkg_env ''__all__'' sub1_source = Inr None"
    by simp
  have path: "map_of [(''sub1'', Some ''/src/pkg/sub1.py'')] ''sub1''
                = Some (Some ''/src/pkg/sub1.py'')"
    by simp
  have read: "open_read pkg_env ''/src/pkg/sub1.py'' (if PY2 pkg_env then None else Some ''utf8'')
                = Inr sub1_source"
    by (simp add: pkg_env_def sample_env_def)
  have entry: "from_import pkg_env True [(''sub1'', Some ''/src/pkg/sub1.py'')] ''sub1''
                 = Inr (''sub1'', [''alpha'', ''zeta''])"
    by code_simp
  show ?thesis
    using lookup entry derived_export_list_public [OF nodecl path read entry]
    by simp
qed

subsection \<open>The order of the manifest\<close>

text \<open>
  C5, as stated, fails: an explicit list of submodules is processed in the order given.
  With \<^verbatim>\<open>imports = ["sub2", "sub1"]\<close> the manifest lists \<^verbatim>\<open>sub2\<close> before \<^verbatim>\<open>sub1\<close>,
  and so does the manifest of the package whose \<^verbatim>\<open>__init__.py\<close> declares
  \<^verbatim>\<open>__submodules__ = ["sub2", "sub1"]\<close>.
\<close>

theorem manifest_sorted_counterexample:
  "static_init_manifest pkg_env ''/src/pkg'' (Some [''sub2'', ''sub1'']) True =
     Inr (Some ''pkg'', [''sub2'', ''sub1''],
          [(''sub2'', [''_hidden'', ''len'', ''x'']), (''sub1'', [''alpha'', ''zeta''])])
   \<and> static_init_manifest declaring_env ''/src/pkg'' None True =
     Inr (Some ''pkg'', [''sub2'', ''sub1''],
          [(''sub2'', [''_hidden'', ''len'', ''x'']), (''sub1'', [''alpha'', ''zeta''])])
   \<and> \<not> sorted [''sub2'', ''sub1'']"
  by code_simp

text \<open>
  C5, amended.  The manifest has one pair for each processed submodule, in the order of the
  list \<^verbatim>\<open>imports\<close>.  When the submodules come from discovery that list is sorted and has
  no duplicates, so the pairs are sorted by relative name; when they come from an explicit
  or declared list, the pairs follow the order of that list.
\<close>

theorem manifest_order:
  assumes "static_parse_imports env modpath given use_all = Inr (modname, ims, from_imports)"
  shows "map fst from_imports = ims
       \<and> (given = None \<longrightarrow> sorted (map fst from_imports) \<and> distinct (map fst from_imports))
       \<and> (\<forall>explicit. given = Some explicit \<longrightarrow> map fst from_imports = explicit)"
proof -
  from static_parse_imports_Inr [OF assms] obtain import_paths where
    res: "resolve_imports env modpath (modpath_to_modname env modpath None) given
            = Inr (import_paths, ims)" and
    loop: "from_imports_loop env use_all import_paths ims = Inr from_imports"
    by blast
  have names: "map fst from_imports = ims"
    by (rule from_imports_loop_names [OF loop])
  have "sorted ims \<and> distinct ims" if "given = None"
    using res that
    by (auto simp: resolve_imports_def Let_def distinct_keys_dict split: sum.splits)
  moreover have "ims = explicit" if "given = Some explicit" for explicit
    using res that by (auto simp: resolve_imports_def split: option.splits)
  ultimately show ?thesis using names by simp
qed

theorem manifest_order_witness:
  "static_parse_imports pkg_env ''/src/pkg'' None True =
     Inr (Some ''pkg'', [''sub1'', ''sub2''],
          [(''sub1'', [''alpha'', ''zeta'']), (''sub2'', [''_hidden'', ''len'', ''x''])])
   \<and> sorted (map fst [(''sub1'', [''alpha'', ''zeta'']), (''sub2'', [''_hidden'', ''len'', ''x''])])
   \<and> static_parse_imports pkg_env ''/src/pkg'' (Some [''sub2'', ''sub1'']) True =
     Inr (Some ''pkg'', [''sub2'', ''sub1''],
          [(''sub2'', [''_hidden'', ''len'', ''x'']), (''sub1'', [''alpha'', ''zeta''])])
   \<and> map fst [(''sub2'', [''_hidden'', ''len'', ''x'']), (''sub1'', [''alpha'', ''zeta''])]
       = [''sub2'', ''sub1'']"
proof -
  have found: "static_parse_imports pkg_env ''/src/pkg'' None True =
     Inr (Some ''pkg'', [''sub1'', ''sub2''],
          [(''sub1'', [''alpha'', ''zeta'']), (''sub2'', [''_hidden'', ''len'', ''x''])])"
    by code_simp
  have listed: "static_parse_imports pkg_env ''/src/pkg'' (Some [''sub2'', ''sub1'']) True =
     Inr (Some ''pkg'', [''sub2'', ''sub1''],
          [(''sub2'', [''_hidden'', ''len'', ''x'']), (''sub1'', [''alpha'', ''zeta''])])"
    by code_simp
  show ?thesis
    using found listed manifest_order [OF found] manifest_order [OF listed]
    by simp
qed

subsection \<open>Discovery\<close>

text \<open>
  C7.  When the package location resolves, its \<^verbatim>\<open>__init__.py\<close> declares no submodule
  list and no list is passed, the submodules of a run are found by discovery.  The root
  package path is the directory \<^verbatim>\<open>split_modpath\<close> gives joined with the first component
  of the path below it, or the package path itself when \<^verbatim>\<open>split_modpath\<close> raises
  \<^verbatim>\<open>ValueError\<close>.  The discovered pairs are exactly the paths the package walk yields
  together with their relative names (the module name relative to the root package, without
  the package name and the dot), for the relative names that are not empty and do not
  start with an underscore.  The list \<^verbatim>\<open>imports\<close> consists of these relative names; it is
  sorted and has no duplicates, and the manifest has one pair for each of its names, in
  that order.  A path whose module name is the package name, as the package's own
  \<^verbatim>\<open>__init__.py\<close>, is in no discovered pair.
\<close>

theorem discovered_submodules:
  assumes loc: "rectify_to_modpath env location = Inr modpath"
    and nodecl: "parse_submodule_definition env modpath = Inr None"
    and run: "static_init_manifest env location None use_all = Inr (modname, ims, from_imports)"
  shows "\<exists>pkgname root found.
           modpath_to_modname env modpath None = Some pkgname \<and>
           modname = Some pkgname \<and>
           (case split_modpath env modpath of
              Inr (a, b) \<Rightarrow>
                root = path_join env a
                         (takeWhile (\<lambda>c. c \<noteq> CHR ''/'')
                            (map (\<lambda>c. if c = CHR 0x5C then CHR ''/'' else c) b))
            | Inl e \<Rightarrow> (\<exists>msg. e = ValueError msg) \<and> root = modpath) \<and>
           find_local_submodules env modpath = Inr found \<and>
           set found =
             {(rel, p). p \<in> set (package_modpaths env modpath) \<and>
                        rel \<noteq> [] \<and> \<not> startswith rel ''_'' \<and>
                        (\<exists>sub. modpath_to_modname env p (Some root) = Some sub \<and>
                               rel = drop (length pkgname + 1) sub)} \<and>
           set ims = fst ` set found \<and>
           sorted ims \<and> distinct ims \<and> map fst from_imports = ims \<and>
           (\<forall>p. modpath_to_modname env p (Some root) = Some pkgname \<longrightarrow>
                p \<notin> snd ` set found)"
proof -
  from loc nodecl run
  have parsed: "static_parse_imports env modpath None use_all = Inr (modname, ims, from_imports)"
    by (simp add: static_init_manifest_def)
  from static_parse_imports_Inr [OF parsed] obtain import_paths where
    res: "resolve_imports env modpath (modpath_to_modname env modpath None) None
            = Inr (import_paths, ims)" and
    loop: "from_imports_loop env use_all import_paths ims = Inr from_imports" and
    modname: "modname = modpath_to_modname env modpath None"
    by blast
  from res obtain found where
    found: "find_local_submodules env modpath = Inr found" and
    ims: "ims = sort (keys (dict (map (\<lambda>(rel_modname, sub_modpath).
                                         (rel_modname, Some sub_modpath)) found)))"
    by (auto simp: resolve_imports_def Let_def split: sum.splits)
  from found obtain pkgname root where
    pkgname: "modpath_to_modname env modpath None = Some pkgname" and
    root: "root_pkgpath env modpath = Inr root" and
    walk: "local_submodules_loop env pkgname root (package_modpaths env modpath) = Inr found"
    by (auto simp: find_local_submodules_def split: option.splits sum.splits)
  from root
  have split: "(case split_modpath env modpath of
              Inr (a, b) \<Rightarrow>
                root = path_join env a
                         (takeWhile (\<lambda>c. c \<noteq> CHR ''/'')
                            (map (\<lambda>c. if c = CHR 0x5C then CHR ''/'' else c) b))
            | Inl e \<Rightarrow> (\<exists>msg. e = ValueError msg) \<and> root = modpath)"
    by (auto simp: root_pkgpath_def first_component_def is_ValueError_iff
             split: sum.splits if_splits)
  note pairs = local_submodules_loop_set [OF walk]
  have names: "set ims = fst ` set found"
    by (simp add: ims set_keys_dict image_image case_prod_beta)
  have "sorted ims" "distinct ims"
    by (simp_all add: ims distinct_keys_dict)
  moreover have "map fst from_imports = ims"
    by (rule from_imports_loop_names [OF loop])
  moreover have "p \<notin> snd ` set found"
    if "modpath_to_modname env p (Some root) = Some pkgname" for p
    using that by (auto simp: pairs)
  ultimately show ?thesis
    using pkgname modname split found pairs names by blast
qed

theorem discovered_submodules_witness:
  "rectify_to_modpath pkg_env ''/src/pkg'' = Inr ''/src/pkg''
   \<and> parse_submodule_definition pkg_env ''/src/pkg'' = Inr None
   \<and> package_modpaths pkg_env ''/src/pkg'' =
       [''/src/pkg/__init__.py'', ''/src/pkg/sub2.py'', ''/src/pkg/sub1.py'', ''/src/pkg/_sub3.py'']
   \<and> static_init_manifest pkg_env ''/src/pkg'' None False =
       Inr (Some ''pkg'', [''sub1'', ''sub2''],
            [(''sub1'', [''alpha'', ''zeta'']), (''sub2'', [])])
   \<and> find_local_submodules pkg_env ''/src/pkg'' =
       Inr [(''sub2'', ''/src/pkg/sub2.py''), (''sub1'', ''/src/pkg/sub1.py'')]
   \<and> set [''sub1'', ''sub2'']
       = fst ` set [(''sub2'', ''/src/pkg/sub2.py''), (''sub1'', ''/src/pkg/sub1.py'')]
   \<and> sorted [''sub1'', ''sub2''] \<and> distinct [''sub1'', ''sub2'']
   \<and> rectify_to_modpath nested_env ''/src/top/mid'' = Inr ''/src/top/mid''
   \<and> parse_submodule_definition nested_env ''/src/top/mid'' = Inr None
   \<and> split_modpath nested_env ''/src/top/mid'' = Inr (''/src'', ''top/mid'')
   \<and> package_modpaths nested_env ''/src/top/mid'' =
       [''/src/top/mid/__init__.py'', ''/src/top/mid/b.py'', ''/src/top/mid/a.py'',
        ''/src/top/mid/_c.py'', ''/src/top/mid/deep/__init__.py'']
   \<and> static_init_manifest nested_env ''/src/top/mid'' None True =
       Inr (Some ''top.mid'', [''a'', ''b'', ''deep''],
            [(''a'', [''first'']), (''b'', [''second'']), (''deep'', [''third''])])
   \<and> find_local_submodules nested_env ''/src/top/mid'' =
       Inr [(''b'', ''/src/top/mid/b.py''), (''a'', ''/src/top/mid/a.py''),
            (''deep'', ''/src/top/mid/deep/__init__.py'')]
   \<and> set [''a'', ''b'', ''deep'']
       = fst ` set [(''b'', ''/src/top/mid/b.py''), (''a'', ''/src/top/mid/a.py''),
                    (''deep'', ''/src/top/mid/deep/__init__.py'')]
   \<and> sorted [''a'', ''b'', ''deep''] \<and> distinct [''a'', ''b'', ''deep'']"
proof -
  have loc: "rectify_to_modpath pkg_env ''/src/pkg'' = Inr ''/src/pkg''"
    by code_simp
  have nodecl: "parse_submodule_definition pkg_env ''/src/pkg'' = Inr None"
    by code_simp
  have walk: "package_modpaths pkg_env ''/src/pkg'' =
       [''/src/pkg/__init__.py'', ''/src/pkg/sub2.py'', ''/src/pkg/sub1.py'', ''/src/pkg/_sub3.py'']"
    by code_simp
  have run: "static_init_manifest pkg_env ''/src/pkg'' None False =
       Inr (Some ''pkg'', [''sub1'', ''sub2''],
            [(''sub1'', [''alpha'', ''zeta'']), (''sub2'', [])])"
    by code_simp
  have found: "find_local_submodules pkg_env ''/src/pkg'' =
       Inr [(''sub2'', ''/src/pkg/sub2.py''), (''sub1'', ''/src/pkg/sub1.py'')]"
    by code_simp
  from discovered_submodules [OF loc nodecl run] found
  have flat: "set [''sub1'', ''sub2'']
       = fst ` set [(''sub2'', ''/src/pkg/sub2.py''), (''sub1'', ''/src/pkg/sub1.py'')]
     \<and> sorted [''sub1'', ''sub2''] \<and> distinct [''sub1'', ''sub2'']"
    by auto
  have nloc: "rectify_to_modpath nested_env ''/src/top/mid'' = Inr ''/src/top/mid''"
    by code_simp
  have nnodecl: "parse_submodule_definition nested_env ''/src/top/mid'' = Inr None"
    by code_simp
  have nsplit: "split_modpath nested_env ''/src/top/mid'' = Inr (''/src'', ''top/mid'')"
    by code_simp
  have nwalk: "package_modpaths nested_env ''/src/top/mid'' =
       [''/src/top/mid/__init__.py'', ''/src/top/mid/b.py'', ''/src/top/mid/a.py'',
        ''/src/top/mid/_c.py'', ''/src/top/mid/deep/__init__.py'']"
    by code_simp
  have nrun: "static_init_manifest nested_env ''/src/top/mid'' None True =
       Inr (Some ''top.mid'', [''a'', ''b'', ''deep''],
            [(''a'', [''first'']), (''b'', [''second'']), (''deep'', [''third''])])"
    by code_simp
  have nfound: "find_local_submodules nested_env ''/src/top/mid'' =
       Inr [(''b'', ''/src/top/mid/b.py''), (''a'', ''/src/top/mid/a.py''),
            (''deep'', ''/src/top/mid/deep/__init__.py'')]"
    by code_simp
  from discovered_submodules [OF nloc nnodecl nrun] nfound
  have nested: "set [''a'', ''b'', ''deep'']
       = fst ` set [(''b'', ''/src/top/mid/b.py''), (''a'', ''/src/top/mid/a.py''),
                    (''deep'', ''/src/top/mid/deep/__init__.py'')]
     \<and> sorted [''a'', ''b'', ''deep''] \<and> distinct [''a'', ''b'', ''deep'']"
    by auto
  from loc nodecl walk run found flat nloc nnodecl nsplit nwalk nrun nfound nested
  show ?thesis by blast
qed

subsection \<open>Failures\<close>

text \<open>
  C6, as stated, fails: only \<^verbatim>\<open>NameError\<close> is caught around the static lookups.  In the
  sample package whose \<^verbatim>\<open>sub2.py\<close> computes \<^verbatim>\<open>__all__\<close> at run time, the static
  evaluator finds the assignment and raises \<^verbatim>\<open>TypeError\<close> on its right-hand side; the run
  fails with that exception, although the analysis of the same package (the run with
  \<^verbatim>\<open>use_all\<close> false) gives a manifest.
\<close>

theorem computed_declaration_counterexample:
  "static_init_manifest computed_env ''/src/pkg'' None True =
     Inl (TypeError ''Cannot parse a static value from non-static node'')
   \<and> static_init_manifest computed_env ''/src/pkg'' None False =
     Inr (Some ''pkg'', [''sub1'', ''sub2''],
          [(''sub1'', [''alpha'', ''zeta'']), (''sub2'', [''beta''])])"
  by code_simp

text \<open>
  C6, amended.  A declaration is treated as absent when its static lookup raises
  \<^verbatim>\<open>NameError\<close> or gives \<^verbatim>\<open>None\<close>: for \<^verbatim>\<open>__all__\<close> the pass of the loop is then the one
  of the analysis (the pass with \<^verbatim>\<open>use_all\<close> false), and for the submodule list (both
  spellings) the run is the run of discovery.  When the static evaluation of a declaration
  raises any other exception, that exception propagates and the run fails: for
  \<^verbatim>\<open>__all__\<close> the pass of the loop raises it, every run over that submodule fails, with
  that exception when the submodules before it are processed without error; for the
  submodule list the run fails with it.
\<close>

theorem declaration_fallback:
  "(((\<exists>msg. parse_static_value env ''__all__'' source = Inl (NameError msg))
       \<or> parse_static_value env ''__all__'' source = Inr None) \<longrightarrow>
      valid_attrs_of env True source =
        (case TopLevelVisitor_parse env source of
           Inl e \<Rightarrow> Inl e
         | Inr names \<Rightarrow>
             Inr (filter (\<lambda>attr. \<not> startswith attr ''_'' \<and> attr \<notin> set (dir_builtins env))
                         names))
      \<and> (map_of import_paths rel_modname = Some (Some sub_modpath) \<longrightarrow>
           open_read env sub_modpath (if PY2 env then None else Some ''utf8'') = Inr source \<longrightarrow>
           from_import env True import_paths rel_modname
             = from_import env False import_paths rel_modname))
   \<and> (\<forall>e. parse_static_value env ''__all__'' source = Inl e \<longrightarrow> \<not> is_NameError e \<longrightarrow>
          valid_attrs_of env True source = Inl e
          \<and> (map_of import_paths rel_modname = Some (Some sub_modpath) \<longrightarrow>
               open_read env sub_modpath (if PY2 env then None else Some ''utf8'')
                 = Inr source \<longrightarrow>
               from_import env True import_paths rel_modname = Inl e
               \<and> (\<forall>pkgpath given ims.
                     resolve_imports env pkgpath (modpath_to_modname env pkgpath None) given
                       = Inr (import_paths, ims) \<longrightarrow>
                     rel_modname \<in> set ims \<longrightarrow>
                     (\<exists>e'. static_parse_imports env pkgpath given True = Inl e')
                     \<and> (\<forall>place called.
                           rectify_to_modpath env place = Inr pkgpath \<longrightarrow>
                           (case called of
                              None \<Rightarrow> parse_submodule_definition env pkgpath
                            | Some listed \<Rightarrow> Inr (Some listed)) = Inr given \<longrightarrow>
                           (\<exists>e'. static_init_manifest env place called True = Inl e'))
                     \<and> (\<forall>pre post. ims = pre @ rel_modname # post \<longrightarrow>
                           (\<forall>x \<in> set pre. \<exists>entry.
                               from_import env True import_paths x = Inr entry) \<longrightarrow>
                           static_parse_imports env pkgpath given True = Inl e))))
   \<and> (path_exists env (path_join env modpath ''__init__.py'') \<longrightarrow>
      open_read env (path_join env modpath ''__init__.py'') None = Inr init_source \<longrightarrow>
        ((parse_static_value env ''__submodules__'' init_source = Inr None
            \<or> (\<exists>msg. parse_static_value env ''__submodules__'' init_source = Inl (NameError msg))
              \<and> (parse_static_value env ''__SUBMODULES__'' init_source = Inr None
                  \<or> (\<exists>msg. parse_static_value env ''__SUBMODULES__'' init_source
                              = Inl (NameError msg)))) \<longrightarrow>
           parse_submodule_definition env modpath = Inr None
           \<and> (rectify_to_modpath env location = Inr modpath \<longrightarrow>
                static_init_manifest env location None use_all =
                  static_parse_imports env modpath None use_all))
        \<and> (\<forall>e. parse_static_value env ''__submodules__'' init_source = Inl e \<longrightarrow>
               \<not> is_NameError e \<longrightarrow>
               parse_submodule_definition env modpath = Inl e
               \<and> (rectify_to_modpath env location = Inr modpath \<longrightarrow>
                    static_init_manifest env location None use_all = Inl e))
        \<and> (\<forall>msg e. parse_static_value env ''__submodules__'' init_source = Inl (NameError msg) \<longrightarrow>
               parse_static_value env ''__SUBMODULES__'' init_source = Inl e \<longrightarrow>
               \<not> is_NameError e \<longrightarrow>
               parse_submodule_definition env modpath = Inl e
               \<and> (rectify_to_modpath env location = Inr modpath \<longrightarrow>
                    static_init_manifest env location None use_all = Inl e)))"
proof (intro conjI impI allI)
  assume "(\<exists>msg. parse_static_value env ''__all__'' source = Inl (NameError msg))
            \<or> parse_static_value env ''__all__'' source = Inr None"
  then show "valid_attrs_of env True source =
        (case TopLevelVisitor_parse env source of
           Inl e \<Rightarrow> Inl e
         | Inr names \<Rightarrow>
             Inr (filter (\<lambda>attr. \<not> startswith attr ''_'' \<and> attr \<notin> set (dir_builtins env))
                         names))"
    by (auto simp: valid_attrs_of_def declared_all_def filter_attrnames_filter split: sum.splits)
next
  assume "(\<exists>msg. parse_static_value env ''__all__'' source = Inl (NameError msg))
            \<or> parse_static_value env ''__all__'' source = Inr None"
    and "map_of import_paths rel_modname = Some (Some sub_modpath)"
    and "open_read env sub_modpath (if PY2 env then None else Some ''utf8'') = Inr source"
  then show "from_import env True import_paths rel_modname
               = from_import env False import_paths rel_modname"
    by (auto simp: from_import_def valid_attrs_of_def declared_all_def)
next
  fix e
  assume "parse_static_value env ''__all__'' source = Inl e" "\<not> is_NameError e"
  then show "valid_attrs_of env True source = Inl e"
    by (simp add: valid_attrs_of_def declared_all_def)
next
  fix e
  assume "parse_static_value env ''__all__'' source = Inl e" "\<not> is_NameError e"
    and "map_of import_paths rel_modname = Some (Some sub_modpath)"
    and "open_read env sub_modpath (if PY2 env then None else Some ''utf8'') = Inr source"
  then show "from_import env True import_paths rel_modname = Inl e"
    by (simp add: from_import_def valid_attrs_of_def declared_all_def)
next
  fix e pkgpath given ims
  assume "parse_static_value env ''__all__'' source = Inl e" "\<not> is_NameError e"
    and "map_of import_paths rel_modname = Some (Some sub_modpath)"
    and "open_read env sub_modpath (if PY2 env then None else Some ''utf8'') = Inr source"
  then have fails: "from_import env True import_paths rel_modname = Inl e"
    by (simp add: from_import_def valid_attrs_of_def declared_all_def)
  assume res: "resolve_imports env pkgpath (modpath_to_modname env pkgpath None) given
                 = Inr (import_paths, ims)"
    and mem: "rel_modname \<in> set ims"
  have run: "static_parse_imports env pkgpath given True =
               (case from_imports_loop env True import_paths ims of
                  Inl e \<Rightarrow> Inl e
                | Inr from_imports \<Rightarrow>
                    Inr (modpath_to_modname env pkgpath None, ims, from_imports))"
    by (simp add: static_parse_imports_def res)
  from from_imports_loop_fails [OF mem fails]
  show always: "\<exists>e'. static_parse_imports env pkgpath given True = Inl e'"
    by (auto simp: run)
  {
    fix place called
    assume "rectify_to_modpath env place = Inr pkgpath"
      and "(case called of
              None \<Rightarrow> parse_submodule_definition env pkgpath
            | Some listed \<Rightarrow> Inr (Some listed)) = Inr given"
    with always show "\<exists>e'. static_init_manifest env place called True = Inl e'"
      by (simp add: static_init_manifest_def)
  }
  {
    fix pre post
    assume split: "ims = pre @ rel_modname # post"
      and before: "\<forall>x \<in> set pre. \<exists>entry. from_import env True import_paths x = Inr entry"
    from from_imports_loop_first_failure [OF before fails, of post] split
    have "from_imports_loop env True import_paths ims = Inl e"
      by simp
    then show "static_parse_imports env pkgpath given True = Inl e"
      by (simp add: run)
  }
next
  assume init: "path_exists env (path_join env modpath ''__init__.py'')"
    "open_read env (path_join env modpath ''__init__.py'') None = Inr init_source"
    and absent: "parse_static_value env ''__submodules__'' init_source = Inr None
       \<or> (\<exists>msg. parse_static_value env ''__submodules__'' init_source = Inl (NameError msg))
         \<and> (parse_static_value env ''__SUBMODULES__'' init_source = Inr None
             \<or> (\<exists>msg. parse_static_value env ''__SUBMODULES__'' init_source
                         = Inl (NameError msg)))"
  then show none: "parse_submodule_definition env modpath = Inr None"
    by (auto simp: parse_submodule_definition_def)
  {
    assume "rectify_to_modpath env location = Inr modpath"
    with none show "static_init_manifest env location None use_all =
                      static_parse_imports env modpath None use_all"
      by (simp add: static_init_manifest_def)
  }
next
  fix e
  assume "path_exists env (path_join env modpath ''__init__.py'')"
    "open_read env (path_join env modpath ''__init__.py'') None = Inr init_source"
    "parse_static_value env ''__submodules__'' init_source = Inl e" "\<not> is_NameError e"
  then show raised: "parse_submodule_definition env modpath = Inl e"
    by (simp add: parse_submodule_definition_def)
  {
    assume "rectify_to_modpath env location = Inr modpath"
    with raised show "static_init_manifest env location None use_all = Inl e"
      by (simp add: static_init_manifest_def)
  }
next
  fix msg e
  assume "path_exists env (path_join env modpath ''__init__.py'')"
    "open_read env (path_join env modpath ''__init__.py'') None = Inr init_source"
    "parse_static_value env ''__submodules__'' init_source = Inl (NameError msg)"
    "parse_static_value env ''__SUBMODULES__'' init_source = Inl e" "\<not> is_NameError e"
  then show raised: "parse_submodule_definition env modpath = Inl e"
    by (simp add: parse_submodule_definition_def)
  {
    assume "rectify_to_modpath env location = Inr modpath"
    with raised show "static_init_manifest env location None use_all = Inl e"
      by (simp add: static_init_manifest_def)
  }
qed

theorem declaration_fallback_witness:
  "parse_static_value computed_env ''__all__'' sub1_source = Inl (NameError ''__all__'')
   \<and> valid_attrs_of computed_env True sub1_source = Inr [''zeta'', ''alpha'']
   \<and> from_import computed_env True
         [(''sub2'', Some ''/src/pkg/sub2.py''), (''sub1'', Some ''/src/pkg/sub1.py'')] ''sub1''
       = Inr (''sub1'', [''alpha'', ''zeta''])
   \<and> parse_static_value computed_env ''__all__'' computed_source =
       Inl (TypeError ''Cannot parse a static value from non-static node'')
   \<and> valid_attrs_of computed_env True computed_source =
       Inl (TypeError ''Cannot parse a static value from non-static node'')
   \<and> from_import computed_env True
         [(''sub2'', Some ''/src/pkg/sub2.py''), (''sub1'', Some ''/src/pkg/sub1.py'')] ''sub2''
       = Inl (TypeError ''Cannot parse a static value from non-static node'')
   \<and> static_parse_imports computed_env ''/src/pkg'' None True =
       Inl (TypeError ''Cannot parse a static value from non-static node'')
   \<and> parse_static_value computed_env ''__submodules__'' [] = Inl (NameError ''__submodules__'')
   \<and> parse_static_value computed_env ''__SUBMODULES__'' [] = Inl (NameError ''__SUBMODULES__'')
   \<and> parse_submodule_definition computed_env ''/src/pkg'' = Inr None
   \<and> static_init_manifest computed_env ''/src/pkg'' None False =
       static_parse_imports computed_env ''/src/pkg'' None False
   \<and> parse_static_value computed_init_env ''__submodules__'' computed_init_source =
       Inl (TypeError ''Cannot parse a static value from non-static node'')
   \<and> static_init_manifest computed_init_env ''/src/pkg'' None True =
       Inl (TypeError ''Cannot parse a static value from non-static node'')"
proof -
  let ?paths = "[(''sub2'', Some ''/src/pkg/sub2.py''), (''sub1'', Some ''/src/pkg/sub1.py'')]"
  let ?raised = "TypeError ''Cannot parse a static value from non-static node''"
  have absent: "parse_static_value computed_env ''__all__'' sub1_source
                  = Inl (NameError ''__all__'')"
    by code_simp
  have analysed: "TopLevelVisitor_parse computed_env sub1_source
                    = Inr [''zeta'', ''_priv'', ''len'', ''alpha'']"
    by code_simp
  have builtins: "dir_builtins computed_env = [''abs'', ''len'', ''open'', ''print'']"
    by code_simp
  have path1: "map_of ?paths ''sub1'' = Some (Some ''/src/pkg/sub1.py'')"
    by simp
  have read1: "open_read computed_env ''/src/pkg/sub1.py''
                 (if PY2 computed_env then None else Some ''utf8'') = Inr sub1_source"
    by code_simp
  have analysis: "from_import computed_env False ?paths ''sub1''
                    = Inr (''sub1'', [''alpha'', ''zeta''])"
    by code_simp
  have computed: "parse_static_value computed_env ''__all__'' computed_source = Inl ?raised"
    by code_simp
  have other: "\<not> is_NameError ?raised"
    by simp
  have path2: "map_of ?paths ''sub2'' = Some (Some ''/src/pkg/sub2.py'')"
    by simp
  have read2: "open_read computed_env ''/src/pkg/sub2.py''
                 (if PY2 computed_env then None else Some ''utf8'') = Inr computed_source"
    by code_simp
  have res: "resolve_imports computed_env ''/src/pkg''
               (modpath_to_modname computed_env ''/src/pkg'' None) None
               = Inr (?paths, [''sub1'', ''sub2''])"
    by code_simp
  have init: "path_exists computed_env (path_join computed_env ''/src/pkg'' ''__init__.py'')"
    by code_simp
  have read: "open_read computed_env (path_join computed_env ''/src/pkg'' ''__init__.py'') None
                = Inr []"
    by code_simp
  have lower: "parse_static_value computed_env ''__submodules__'' []
                 = Inl (NameError ''__submodules__'')"
    by code_simp
  have upper: "parse_static_value computed_env ''__SUBMODULES__'' []
                 = Inl (NameError ''__SUBMODULES__'')"
    by code_simp
  have loc: "rectify_to_modpath computed_env ''/src/pkg'' = Inr ''/src/pkg''"
    by code_simp
  have init': "path_exists computed_init_env
                 (path_join computed_init_env ''/src/pkg'' ''__init__.py'')"
    by code_simp
  have read': "open_read computed_init_env
                 (path_join computed_init_env ''/src/pkg'' ''__init__.py'') None
                 = Inr computed_init_source"
    by code_simp
  have lower': "parse_static_value computed_init_env ''__submodules__'' computed_init_source
                  = Inl ?raised"
    by code_simp
  have loc': "rectify_to_modpath computed_init_env ''/src/pkg'' = Inr ''/src/pkg''"
    by code_simp
  note fallback = declaration_fallback [where env = computed_env and source = sub1_source
      and import_paths = ?paths and rel_modname = "''sub1''"
      and sub_modpath = "''/src/pkg/sub1.py''"
      and modpath = "''/src/pkg''" and init_source = "[]" and location = "''/src/pkg''"
      and use_all = False]
  note failure = declaration_fallback [where env = computed_env and source = computed_source
      and import_paths = ?paths and rel_modname = "''sub2''"
      and sub_modpath = "''/src/pkg/sub2.py''"
      and modpath = "''/src/pkg''" and init_source = "[]" and location = "''/src/pkg''"
      and use_all = False]
  note listing = declaration_fallback [where env = computed_init_env
      and modpath = "''/src/pkg''" and init_source = computed_init_source
      and location = "''/src/pkg''" and use_all = True]
  have mem: "''sub2'' \<in> set [''sub1'', ''sub2'']"
    by simp
  have no_all: "(\<exists>msg. parse_static_value computed_env ''__all__'' sub1_source
                         = Inl (NameError msg))
                  \<or> parse_static_value computed_env ''__all__'' sub1_source = Inr None"
    using absent by blast
  have no_list: "parse_static_value computed_env ''__submodules__'' [] = Inr None
       \<or> (\<exists>msg. parse_static_value computed_env ''__submodules__'' [] = Inl (NameError msg))
         \<and> (parse_static_value computed_env ''__SUBMODULES__'' [] = Inr None
             \<or> (\<exists>msg. parse_static_value computed_env ''__SUBMODULES__'' []
                         = Inl (NameError msg)))"
    using lower upper by blast
  note analysed_path = fallback [THEN conjunct1, rule_format, OF no_all]
  note raising = failure [THEN conjunct2, THEN conjunct1, rule_format, OF computed other]
  note raising_pass = raising [THEN conjunct2, rule_format, OF path2 read2]
  note raising_run = raising_pass [THEN conjunct2, rule_format, OF res mem]
  note undeclared = fallback [THEN conjunct2, THEN conjunct2, rule_format, OF init read,
      THEN conjunct1, rule_format, OF no_list]
  note raising_list = listing [THEN conjunct2, THEN conjunct2, rule_format, OF init' read',
      THEN conjunct2, THEN conjunct1, rule_format, OF lower' other]
  have one: "valid_attrs_of computed_env True sub1_source = Inr [''zeta'', ''alpha'']"
    using analysed_path [THEN conjunct1] analysed builtins by (simp add: startswith_def)
  have two: "from_import computed_env True ?paths ''sub1''
               = Inr (''sub1'', [''alpha'', ''zeta''])"
    using analysed_path [THEN conjunct2, rule_format, OF path1 read1] analysis by simp
  have three: "valid_attrs_of computed_env True computed_source = Inl ?raised"
    by (rule raising [THEN conjunct1])
  have four: "from_import computed_env True ?paths ''sub2'' = Inl ?raised"
    by (rule raising_pass [THEN conjunct1])
  have five: "static_parse_imports computed_env ''/src/pkg'' None True = Inl ?raised"
    by (rule raising_run [THEN conjunct2, THEN conjunct2, rule_format,
          of "[''sub1'']" "[]"]) (simp_all add: two)
  have six: "parse_submodule_definition computed_env ''/src/pkg'' = Inr None"
    by (rule undeclared [THEN conjunct1])
  have seven: "static_init_manifest computed_env ''/src/pkg'' None False =
       static_parse_imports computed_env ''/src/pkg'' None False"
    by (rule undeclared [THEN conjunct2, rule_format, OF loc])
  have eight: "static_init_manifest computed_init_env ''/src/pkg'' None True = Inl ?raised"
    by (rule raising_list [THEN conjunct2, rule_format, OF loc'])
  from absent one two computed three four five lower upper six seven lower' eight
  show ?thesis by blast
qed

text \<open>
  C8.  With an explicit list of submodules, from the caller or from the package's
  \<^verbatim>\<open>__init__.py\<close>, every entry is looked up: \<^verbatim>\<open>import_paths\<close> maps each entry to the
  result of \<^verbatim>\<open>modname_to_modpath\<close>.  If an entry cannot be located the run fails and
  gives no manifest.  The loop raises at the first entry that fails, so when the entries
  before the missing one are processed without error the exception is the lookup failure
  that names the missing entry.  A package without a module name fails before any lookup.
\<close>

theorem unlocatable_entry_fails:
  assumes mem: "m \<in> set ims"
    and missing: "\<forall>modname. modpath_to_modname env modpath None = Some modname \<longrightarrow>
                    modname_to_modpath env (modname @ ''.'' @ m) False = None"
  shows "(\<exists>e. static_parse_imports env modpath (Some ims) use_all = Inl e)
       \<and> (\<forall>location given. rectify_to_modpath env location = Inr modpath \<longrightarrow>
             (given = Some ims \<or>
              given = None \<and> parse_submodule_definition env modpath = Inr (Some ims)) \<longrightarrow>
             (\<exists>e. static_init_manifest env location given use_all = Inl e))
       \<and> (modpath_to_modname env modpath None = None \<longrightarrow>
             static_parse_imports env modpath (Some ims) use_all
               = Inl (AssertionError ''modname is None''))
       \<and> (\<forall>modname. modpath_to_modname env modpath None = Some modname \<longrightarrow>
             (\<exists>import_paths.
                resolve_imports env modpath (Some modname) (Some ims) = Inr (import_paths, ims) \<and>
                (\<forall>x \<in> set ims. map_of import_paths x =
                     Some (modname_to_modpath env (modname @ ''.'' @ x) False)) \<and>
                from_import env use_all import_paths m = Inl (FailedToLookup m) \<and>
                (\<forall>pre post. ims = pre @ m # post \<longrightarrow>
                   (\<forall>x \<in> set pre. \<exists>entry. from_import env use_all import_paths x = Inr entry) \<longrightarrow>
                   static_parse_imports env modpath (Some ims) use_all
                     = Inl (FailedToLookup m))))"
proof -
  have unnamed: "static_parse_imports env modpath (Some ims) use_all
                   = Inl (AssertionError ''modname is None'')"
    if "modpath_to_modname env modpath None = None"
    using that by (simp add: static_parse_imports_def resolve_imports_def)
  have named: "\<exists>import_paths.
        resolve_imports env modpath (Some modname) (Some ims) = Inr (import_paths, ims) \<and>
        (\<forall>x \<in> set ims. map_of import_paths x =
             Some (modname_to_modpath env (modname @ ''.'' @ x) False)) \<and>
        from_import env use_all import_paths m = Inl (FailedToLookup m) \<and>
        (\<exists>e. static_parse_imports env modpath (Some ims) use_all = Inl e) \<and>
        (\<forall>pre post. ims = pre @ m # post \<longrightarrow>
           (\<forall>x \<in> set pre. \<exists>entry. from_import env use_all import_paths x = Inr entry) \<longrightarrow>
           static_parse_imports env modpath (Some ims) use_all = Inl (FailedToLookup m))"
    if name: "modpath_to_modname env modpath None = Some modname" for modname
  proof -
    define import_paths where
      "import_paths = dict (map (\<lambda>m. (m, modname_to_modpath env (modname @ ''.'' @ m) False)) ims)"
    have res: "resolve_imports env modpath (Some modname) (Some ims) = Inr (import_paths, ims)"
      by (simp add: resolve_imports_def import_paths_def)
    have looked_up: "\<forall>x \<in> set ims. map_of import_paths x =
                       Some (modname_to_modpath env (modname @ ''.'' @ x) False)"
      by (simp add: import_paths_def map_of_dict_comprehension)
    from looked_up mem missing name have "map_of import_paths m = Some None"
      by simp
    then have fails: "from_import env use_all import_paths m = Inl (FailedToLookup m)"
      by (simp add: from_import_def)
    have run: "static_parse_imports env modpath (Some ims) use_all =
                 (case from_imports_loop env use_all import_paths ims of
                    Inl e \<Rightarrow> Inl e
                  | Inr from_imports \<Rightarrow> Inr (Some modname, ims, from_imports))"
      by (simp add: static_parse_imports_def name res)
    from from_imports_loop_fails [OF mem fails]
    have "\<exists>e. static_parse_imports env modpath (Some ims) use_all = Inl e"
      by (auto simp: run)
    moreover have "static_parse_imports env modpath (Some ims) use_all = Inl (FailedToLookup m)"
      if "ims = pre @ m # post"
        and "\<forall>x \<in> set pre. \<exists>entry. from_import env use_all import_paths x = Inr entry"
      for pre post
    proof -
      from from_imports_loop_first_failure [OF that(2) fails, of post] that(1)
      have "from_imports_loop env use_all import_paths ims = Inl (FailedToLookup m)"
        by simp
      then show ?thesis by (simp add: run)
    qed
    ultimately show ?thesis using res looked_up fails by blast
  qed
  have always: "\<exists>e. static_parse_imports env modpath (Some ims) use_all = Inl e"
  proof (cases "modpath_to_modname env modpath None")
    case None
    with unnamed show ?thesis by blast
  next
    case (Some modname)
    with named show ?thesis by blast
  qed
  have entry: "\<exists>e. static_init_manifest env location given use_all = Inl e"
    if "rectify_to_modpath env location = Inr modpath"
      and "given = Some ims \<or> given = None \<and> parse_submodule_definition env modpath = Inr (Some ims)"
    for location given
    using that always by (auto simp: static_init_manifest_def)
  from always entry unnamed named show ?thesis by blast
qed

theorem unlocatable_entry_fails_witness:
  "''missing'' \<in> set [''sub1'', ''missing'', ''sub2'']
   \<and> modpath_to_modname pkg_env ''/src/pkg'' None = Some ''pkg''
   \<and> modname_to_modpath pkg_env (''pkg'' @ ''.'' @ ''missing'') False = None
   \<and> from_import pkg_env True
        (dict (map (\<lambda>m. (m, modname_to_modpath pkg_env (''pkg'' @ ''.'' @ m) False))
                   [''sub1'', ''missing'', ''sub2'']))
        ''sub1'' = Inr (''sub1'', [''alpha'', ''zeta''])
   \<and> static_parse_imports pkg_env ''/src/pkg'' (Some [''sub1'', ''missing'', ''sub2'']) True
       = Inl (FailedToLookup ''missing'')"
proof -
  have mem: "''missing'' \<in> set [''sub1'', ''missing'', ''sub2'']"
    by simp
  have name: "modpath_to_modname pkg_env ''/src/pkg'' None = Some ''pkg''"
    by code_simp
  have lookup: "modname_to_modpath pkg_env (''pkg'' @ ''.'' @ ''missing'') False = None"
    by code_simp
  from name lookup
  have missing: "\<forall>modname. modpath_to_modname pkg_env ''/src/pkg'' None = Some modname \<longrightarrow>
                   modname_to_modpath pkg_env (modname @ ''.'' @ ''missing'') False = None"
    by simp
  have before: "from_import pkg_env True
        (dict (map (\<lambda>m. (m, modname_to_modpath pkg_env (''pkg'' @ ''.'' @ m) False))
                   [''sub1'', ''missing'', ''sub2'']))
        ''sub1'' = Inr (''sub1'', [''alpha'', ''zeta''])"
    by code_simp
  from unlocatable_entry_fails [OF mem missing, of True] name
  obtain import_paths where
    res: "resolve_imports pkg_env ''/src/pkg'' (Some ''pkg'') (Some [''sub1'', ''missing'', ''sub2''])
            = Inr (import_paths, [''sub1'', ''missing'', ''sub2''])" and
    first: "\<forall>pre post. [''sub1'', ''missing'', ''sub2''] = pre @ ''missing'' # post \<longrightarrow>
       (\<forall>x \<in> set pre. \<exists>entry. from_import pkg_env True import_paths x = Inr entry) \<longrightarrow>
       static_parse_imports pkg_env ''/src/pkg'' (Some [''sub1'', ''missing'', ''sub2'']) True
         = Inl (FailedToLookup ''missing'')"
    by blast
  from res have paths: "import_paths =
      dict (map (\<lambda>m. (m, modname_to_modpath pkg_env (''pkg'' @ ''.'' @ m) False))
                [''sub1'', ''missing'', ''sub2''])"
    by (simp add: resolve_imports_def)
  have "static_parse_imports pkg_env ''/src/pkg'' (Some [''sub1'', ''missing'', ''sub2'']) True
          = Inl (FailedToLookup ''missing'')"
    using first [rule_format, of "[''sub1'']" "[''sub2'']"] before paths by simp
  with mem name lookup before show ?thesis by blast
qed

text \<open>
  C9.  When the source of a submodule cannot be read, the pass of the loop for that
  submodule raises the read error that holds the path of the submodule and the exception
  that \<^verbatim>\<open>open\<close> or \<^verbatim>\<open>read\<close> raised, and the run fails and gives no manifest.  The loop
  raises at the first submodule that fails, so when the submodules before the unreadable
  one are processed without error the run fails with exactly that read error.
\<close>

theorem unreadable_submodule_fails:
  assumes res: "resolve_imports env modpath (modpath_to_modname env modpath None) given
                  = Inr (import_paths, ims)"
    and mem: "m \<in> set ims"
    and path: "map_of import_paths m = Some (Some sub_modpath)"
    and unreadable: "open_read env sub_modpath (if PY2 env then None else Some ''utf8'')
                       = Inl cause"
  shows "from_import env use_all import_paths m = Inl (ErrorReading sub_modpath cause)
       \<and> (\<exists>e. static_parse_imports env modpath given use_all = Inl e)
       \<and> (\<forall>pre post. ims = pre @ m # post \<longrightarrow>
             (\<forall>x \<in> set pre. \<exists>entry. from_import env use_all import_paths x = Inr entry) \<longrightarrow>
             static_parse_imports env modpath given use_all
               = Inl (ErrorReading sub_modpath cause))"
proof -
  have fails: "from_import env use_all import_paths m = Inl (ErrorReading sub_modpath cause)"
    using path unreadable by (simp add: from_import_def)
  have run: "static_parse_imports env modpath given use_all =
               (case from_imports_loop env use_all import_paths ims of
                  Inl e \<Rightarrow> Inl e
                | Inr from_imports \<Rightarrow>
                    Inr (modpath_to_modname env modpath None, ims, from_imports))"
    by (simp add: static_parse_imports_def res)
  from from_imports_loop_fails [OF mem fails]
  have "\<exists>e. static_parse_imports env modpath given use_all = Inl e"
    by (auto simp: run)
  moreover have "static_parse_imports env modpath given use_all
                   = Inl (ErrorReading sub_modpath cause)"
    if "ims = pre @ m # post"
      and "\<forall>x \<in> set pre. \<exists>entry. from_import env use_all import_paths x = Inr entry"
    for pre post
  proof -
    from from_imports_loop_first_failure [OF that(2) fails, of post] that(1)
    have "from_imports_loop env use_all import_paths ims = Inl (ErrorReading sub_modpath cause)"
      by simp
    then show ?thesis by (simp add: run)
  qed
  ultimately show ?thesis using fails by blast
qed

theorem unreadable_submodule_fails_witness:
  "resolve_imports unreadable_env ''/src/pkg'' (modpath_to_modname unreadable_env ''/src/pkg'' None)
     None
     = Inr ([(''sub2'', Some ''/src/pkg/sub2.py''), (''sub1'', Some ''/src/pkg/sub1.py'')],
            [''sub1'', ''sub2''])
   \<and> open_read unreadable_env ''/src/pkg/sub2.py''
        (if PY2 unreadable_env then None else Some ''utf8'') = Inl (OSError ''Permission denied'')
   \<and> from_import unreadable_env True
        [(''sub2'', Some ''/src/pkg/sub2.py''), (''sub1'', Some ''/src/pkg/sub1.py'')] ''sub1''
       = Inr (''sub1'', [''alpha'', ''zeta''])
   \<and> static_parse_imports unreadable_env ''/src/pkg'' None True
       = Inl (ErrorReading ''/src/pkg/sub2.py'' (OSError ''Permission denied''))"
proof -
  have res: "resolve_imports unreadable_env ''/src/pkg''
               (modpath_to_modname unreadable_env ''/src/pkg'' None) None
     = Inr ([(''sub2'', Some ''/src/pkg/sub2.py''), (''sub1'', Some ''/src/pkg/sub1.py'')],
            [''sub1'', ''sub2''])"
    by code_simp
  have mem: "''sub2'' \<in> set [''sub1'', ''sub2'']"
    by simp
  have path: "map_of [(''sub2'', Some ''/src/pkg/sub2.py''), (''sub1'', Some ''/src/pkg/sub1.py'')]
                ''sub2'' = Some (Some ''/src/pkg/sub2.py'')"
    by simp
  have unreadable: "open_read unreadable_env ''/src/pkg/sub2.py''
        (if PY2 unreadable_env then None else Some ''utf8'') = Inl (OSError ''Permission denied'')"
    by code_simp
  have before: "from_import unreadable_env True
        [(''sub2'', Some ''/src/pkg/sub2.py''), (''sub1'', Some ''/src/pkg/sub1.py'')] ''sub1''
       = Inr (''sub1'', [''alpha'', ''zeta''])"
    by code_simp
  from unreadable_submodule_fails [OF res mem path unreadable, of True]
  have "\<forall>pre post. [''sub1'', ''sub2''] = pre @ ''sub2'' # post \<longrightarrow>
          (\<forall>x \<in> set pre. \<exists>entry. from_import unreadable_env True
              [(''sub2'', Some ''/src/pkg/sub2.py''), (''sub1'', Some ''/src/pkg/sub1.py'')] x
                = Inr entry) \<longrightarrow>
          static_parse_imports unreadable_env ''/src/pkg'' None True
            = Inl (ErrorReading ''/src/pkg/sub2.py'' (OSError ''Permission denied''))"
    by blast
  from this [rule_format, of "[''sub1'']" "[]"] before
  have "static_parse_imports unreadable_env ''/src/pkg'' None True
          = Inl (ErrorReading ''/src/pkg/sub2.py'' (OSError ''Permission denied''))"
    by simp
  with res unreadable before show ?thesis by blast
qed

subsection \<open>The two spellings of the submodule list\<close>

text \<open>
  C10.  When the package's \<^verbatim>\<open>__init__.py\<close> exists and can be read, the value of
  \<^verbatim>\<open>__submodules__\<close> is the result whenever its lookup returns, whatever the file says
  about \<^verbatim>\<open>__SUBMODULES__\<close>; the value of \<^verbatim>\<open>__SUBMODULES__\<close> is the result when the
  lookup of \<^verbatim>\<open>__submodules__\<close> raises \<^verbatim>\<open>NameError\<close>; and unless the lookup of
  \<^verbatim>\<open>__submodules__\<close> raises \<^verbatim>\<open>NameError\<close>, the result is the same whatever the lookup
  of \<^verbatim>\<open>__SUBMODULES__\<close> would give, so that lookup is not consulted.
\<close>

theorem lowercase_spelling_first:
  assumes init: "path_exists env (path_join env modpath ''__init__.py'')"
    and read: "open_read env (path_join env modpath ''__init__.py'') None = Inr source"
  shows "(\<forall>lower. parse_static_value env ''__submodules__'' source = Inr lower \<longrightarrow>
            parse_submodule_definition env modpath = Inr lower)
       \<and> (\<forall>msg upper. parse_static_value env ''__submodules__'' source = Inl (NameError msg) \<longrightarrow>
            parse_static_value env ''__SUBMODULES__'' source = Inr upper \<longrightarrow>
            parse_submodule_definition env modpath = Inr upper)
       \<and> ((\<forall>msg. parse_static_value env ''__submodules__'' source \<noteq> Inl (NameError msg)) \<longrightarrow>
            (\<forall>other. parse_submodule_definition
                       (env\<lparr>parse_static_value :=
                              (\<lambda>key. if key = ''__SUBMODULES__'' then other
                                      else parse_static_value env key)\<rparr>) modpath
                     = parse_submodule_definition env modpath))"
proof (intro conjI allI impI)
  fix lower
  assume "parse_static_value env ''__submodules__'' source = Inr lower"
  with init read show "parse_submodule_definition env modpath = Inr lower"
    by (simp add: parse_submodule_definition_def)
next
  fix msg upper
  assume "parse_static_value env ''__submodules__'' source = Inl (NameError msg)"
    "parse_static_value env ''__SUBMODULES__'' source = Inr upper"
  with init read show "parse_submodule_definition env modpath = Inr upper"
    by (simp add: parse_submodule_definition_def)
next
  fix other
  assume "\<forall>msg. parse_static_value env ''__submodules__'' source \<noteq> Inl (NameError msg)"
  then have "\<not> is_NameError e" if "parse_static_value env ''__submodules__'' source = Inl e" for e
    using that by (cases e) auto
  with init read
  show "parse_submodule_definition
          (env\<lparr>parse_static_value :=
                 (\<lambda>key. if key = ''__SUBMODULES__'' then other
                         else parse_static_value env key)\<rparr>) modpath
        = parse_submodule_definition env modpath"
    by (auto simp: parse_submodule_definition_def split: sum.splits)
qed

theorem lowercase_spelling_first_witness:
  "path_exists declaring_env (path_join declaring_env ''/src/pkg'' ''__init__.py'')
   \<and> open_read declaring_env (path_join declaring_env ''/src/pkg'' ''__init__.py'') None
       = Inr declaring_init_source
   \<and> parse_static_value declaring_env ''__submodules__'' declaring_init_source
       = Inr (Some [''sub2'', ''sub1''])
   \<and> parse_static_value declaring_env ''__SUBMODULES__'' declaring_init_source
       = Inr (Some [''sub1''])
   \<and> parse_submodule_definition declaring_env ''/src/pkg'' = Inr (Some [''sub2'', ''sub1''])"
proof -
  have init: "path_exists declaring_env (path_join declaring_env ''/src/pkg'' ''__init__.py'')"
    by code_simp
  have read: "open_read declaring_env (path_join declaring_env ''/src/pkg'' ''__init__.py'') None
                = Inr declaring_init_source"
    by code_simp
  have lower: "parse_static_value declaring_env ''__submodules__'' declaring_init_source
                 = Inr (Some [''sub2'', ''sub1''])"
    by code_simp
  have upper: "parse_static_value declaring_env ''__SUBMODULES__'' declaring_init_source
                 = Inr (Some [''sub1''])"
    by code_simp
  from lowercase_spelling_first [OF init read] lower
  have "parse_submodule_definition declaring_env ''/src/pkg'' = Inr (Some [''sub2'', ''sub1''])"
    by blast
  with init read lower upper show ?thesis by blast
qed

subsection \<open>The reachability analyzer\<close>

text \<open>
  The model of the analyzer gives, for the module \<^verbatim>\<open>submod1.py\<close> of the test package, the
  names \<^verbatim>\<open>check_dummy_root_init\<close> of \<^verbatim>\<open>tests/test_with_dummy.py\<close> expects: every
  \<^verbatim>\<open>good_attr\<close> from 01 to 14 and no \<^verbatim>\<open>bad_attr\<close>.
\<close>

lemma submod1_attrnames:
  "sort (attrnames (\<lambda>n. None) submod1) =
     [''attr1'', ''attr2'', ''class1'', ''flag1'', ''flag2'', ''flag3'', ''func1'',
      ''good_attr_01'', ''good_attr_02'', ''good_attr_03'', ''good_attr_04'', ''good_attr_05'',
      ''good_attr_06'', ''good_attr_07'', ''good_attr_08'', ''good_attr_09'', ''good_attr_10'',
      ''good_attr_11'', ''good_attr_12'', ''good_attr_13'', ''good_attr_14'', ''six'', ''sys'']"
  by code_simp

lemma block_names_append:
  "block_names known (xs @ ys) = block_names known xs @ block_names known ys"
  by (induction xs) simp_all

lemma block_names_middle:
  "block_names known (pre @ s # post) =
     block_names known pre @ stmt_names known s @ block_names known post"
  by (simp add: block_names_append)

lemma paths_of_never_taken:
  "paths_of (before @ (AlwaysFalse, b) # after) els = paths_of (before @ after) els"
proof (induction before)
  case Nil
  show ?case by simp
next
  case (Cons p before)
  obtain t x where p: "p = (t, x)" by (cases p)
  show ?case using Cons.IH by (cases t) (simp_all add: p)
qed

lemma paths_of_skip:
  assumes "\<forall>(t, b) \<in> set before. t = AlwaysFalse"
  shows "paths_of (before @ rest) els = paths_of rest els"
  using assms by (induction before) auto

lemma true_branch_names:
  assumes "\<forall>(g, b) \<in> set before. static_truth known g = AlwaysFalse"
  shows "stmt_names known (Conditional (before @ (Lit LTrue, body) # after) els)
           = branch_names known body"
proof -
  let ?path = "\<lambda>(g, b). (static_truth known g, (raises b, block_names known b))"
  from assms have "\<forall>(t, b) \<in> set (map ?path before). t = AlwaysFalse"
    by auto
  from paths_of_skip [OF this]
  have "paths_of (map ?path (before @ (Lit LTrue, body) # after))
                 (map_option (\<lambda>b. (raises b, block_names known b)) els)
          = Some [(raises body, block_names known body)]"
    by simp
  then show ?thesis by (simp add: branch_names_def)
qed

lemma false_branch_names:
  "stmt_names known (Conditional (before @ (Lit LFalse, body) # after) els)
     = stmt_names known (Conditional (before @ after) els)"
  by (simp add: paths_of_never_taken)

text \<open>
  C1, as stated, fails in the model of the reachability analyzer: not every branch guarded
  by the literal \<^verbatim>\<open>True\<close> is executed, and a branch that raises binds nothing for the
  module.  The chain of the test package
  \<^verbatim>\<open>if False: ... elif (1, 2): good_attr_11 = 1 elif True: bad_attr_true8 = 1\<close> binds
  \<^verbatim>\<open>good_attr_11\<close> only, as \<^verbatim>\<open>check_dummy_root_init\<close> demands; in
  \<^verbatim>\<open>if True: a = 1 elif True: b = 1\<close> the second branch is behind an always-taken one and
  \<^verbatim>\<open>b\<close> is not bound; in \<^verbatim>\<open>if flag: x = 1 elif True: y = 1\<close> the first branch may be the
  one executed and \<^verbatim>\<open>y\<close> is not always bound; and the branch of
  \<^verbatim>\<open>if True: c = 1; raise\<close> never completes.
\<close>

theorem literal_true_guard_counterexample:
  "attrnames nothing_known
     [Conditional [(Lit LFalse, [Assign ''bad_attr_str7'']),
                   (Tuple [Lit (LInt 1), Lit (LInt 2)], [Assign ''good_attr_11'']),
                   (Lit LTrue, [Assign ''bad_attr_true8''])] None] = [''good_attr_11'']
   \<and> attrnames nothing_known
       [Conditional [(Lit LTrue, [Assign ''a'']), (Lit LTrue, [Assign ''b''])] None] = [''a'']
   \<and> attrnames nothing_known
       [Conditional [(Name ''flag'', [Assign ''x'']), (Lit LTrue, [Assign ''y''])] None] = []
   \<and> attrnames nothing_known
       [Conditional [(Lit LTrue, [Assign ''c'', Raise])] None] = []"
  by code_simp

text \<open>
  C1, amended.  In the model of the reachability analyzer, for every module and every table
  of known literals: when a branch guarded by the literal \<^verbatim>\<open>True\<close> is the first of its
  chain that can be taken (every branch before it is never taken), the names it
  contributes, which are the names it binds and none when it raises, are always-bound
  names of the module; a branch guarded by the literal \<^verbatim>\<open>False\<close> contributes nothing,
  the always-bound names are those of the module without that branch, and those of the
  module without the conditional when it is the only branch and there is no \<^verbatim>\<open>else\<close>.
  The one-module package whose source is \<^verbatim>\<open>if True: a = 1\<close> and \<^verbatim>\<open>if False: b = 1\<close>,
  with no declaration, gets the export list \<^verbatim>\<open>['a']\<close>.
\<close>

theorem literal_guards:
  "((\<forall>(g, b) \<in> set before. static_truth known g = AlwaysFalse) \<longrightarrow>
      set (branch_names known body)
        \<subseteq> set (attrnames known
                   (pre @ Conditional (before @ (Lit LTrue, body) # after) els # post)))
   \<and> attrnames known (pre @ Conditional (before @ (Lit LFalse, body) # after) els # post)
       = attrnames known (pre @ Conditional (before @ after) els # post)
   \<and> attrnames known (pre @ Conditional [(Lit LFalse, body)] None # post)
       = attrnames known (pre @ post)
   \<and> static_init_manifest guards_env ''/src/one'' None True
       = Inr (Some ''one'', [''guards''], [(''guards'', [''a''])])"
proof (intro conjI impI)
  assume "\<forall>(g, b) \<in> set before. static_truth known g = AlwaysFalse"
  then have "stmt_names known (Conditional (before @ (Lit LTrue, body) # after) els)
               = branch_names known body"
    by (rule true_branch_names)
  then show "set (branch_names known body)
          \<subseteq> set (attrnames known
                     (pre @ Conditional (before @ (Lit LTrue, body) # after) els # post))"
    unfolding attrnames_def block_names_middle by auto
next
  show "attrnames known (pre @ Conditional (before @ (Lit LFalse, body) # after) els # post)
          = attrnames known (pre @ Conditional (before @ after) els # post)"
    unfolding attrnames_def block_names_middle false_branch_names ..
next
  show "attrnames known (pre @ Conditional [(Lit LFalse, body)] None # post)
          = attrnames known (pre @ post)"
    by (simp add: attrnames_def block_names_append)
next
  show "static_init_manifest guards_env ''/src/one'' None True
          = Inr (Some ''one'', [''guards''], [(''guards'', [''a''])])"
    by code_simp
qed

theorem literal_guards_witness:
  "static_truth (\<lambda>n. None) (Lit LFalse) = AlwaysFalse
   \<and> ''good_attr_06'' \<in> set (attrnames (\<lambda>n. None)
        ([Import ''sys''] @
         Conditional ([(Lit LFalse, [Assign ''bad_attr_elif_True3_0''])] @
                      (Lit LTrue, [Assign ''good_attr_06'']) # [])
                     (Some [Assign ''bad_attr_elif_True3_1'']) # [FunctionDef ''func1'']))
   \<and> ''bad_attr_elif_True3_0'' \<notin> set (attrnames (\<lambda>n. None)
        ([Import ''sys''] @
         Conditional ([(Lit LFalse, [Assign ''bad_attr_elif_True3_0''])] @
                      (Lit LTrue, [Assign ''good_attr_06'']) # [])
                     (Some [Assign ''bad_attr_elif_True3_1'']) # [FunctionDef ''func1'']))"
proof -
  have never: "\<forall>(g, b) \<in> set [(Lit LFalse, [Assign ''bad_attr_elif_True3_0''])].
                 static_truth (\<lambda>n. None) g = AlwaysFalse"
    by simp
  have names: "branch_names (\<lambda>n. None) [Assign ''good_attr_06''] = [''good_attr_06'']"
    by (simp add: branch_names_def raises_def)
  from literal_guards [where known = "\<lambda>n. None"
      and before = "[(Lit LFalse, [Assign ''bad_attr_elif_True3_0''])]"
      and body = "[Assign ''good_attr_06'']" and after = "[]"
      and els = "Some [Assign ''bad_attr_elif_True3_1'']"
      and pre = "[Import ''sys'']" and post = "[FunctionDef ''func1'']"] never
  have "set (branch_names (\<lambda>n. None) [Assign ''good_attr_06''])
          \<subseteq> set (attrnames (\<lambda>n. None)
        ([Import ''sys''] @
         Conditional ([(Lit LFalse, [Assign ''bad_attr_elif_True3_0''])] @
                      (Lit LTrue, [Assign ''good_attr_06'']) # [])
                     (Some [Assign ''bad_attr_elif_True3_1'']) # [FunctionDef ''func1'']))"
    by blast
  with names have included: "''good_attr_06'' \<in> set (attrnames (\<lambda>n. None)
        ([Import ''sys''] @
         Conditional ([(Lit LFalse, [Assign ''bad_attr_elif_True3_0''])] @
                      (Lit LTrue, [Assign ''good_attr_06'']) # [])
                     (Some [Assign ''bad_attr_elif_True3_1'']) # [FunctionDef ''func1'']))"
    by simp
  have excluded: "''bad_attr_elif_True3_0'' \<notin> set (attrnames (\<lambda>n. None)
        ([Import ''sys''] @
         Conditional ([(Lit LFalse, [Assign ''bad_attr_elif_True3_0''])] @
                      (Lit LTrue, [Assign ''good_attr_06'']) # [])
                     (Some [Assign ''bad_attr_elif_True3_1'']) # [FunctionDef ''func1'']))"
    by (simp add: attrnames_def raises_def)
  from included excluded show ?thesis by simp
qed

end
